theory Spec2Isabelle
  imports Complex_Main
begin

section \<open>ComfyKix storefront script: cart, checkout and order tracker\<close>

text \<open>
  A shallow embedding of \<^verbatim>\<open>src/ComfyKix/script.js\<close>. The two global arrays
  \<^verbatim>\<open>cart\<close> and \<^verbatim>\<open>orders\<close> and the page elements the script writes to are
  the fields of one state record; every handler takes the state and returns the new one.

  Modelling decisions:
  \<^item> A JavaScript number is an IEEE-754 double. The model leaves the type of prices and
    totals open: it is a type variable \<open>'n\<close> of which only \<open>0\<close>, \<open>1\<close>, \<open>+\<close> and
    \<open>*\<close> are used, through the classes \<open>zero\<close>, \<open>one\<close>, \<open>plus\<close> and
    \<open>times\<close>, which carry no law. Nothing is assumed about the arithmetic (no
    associativity, no exactness), so every theorem holds when \<open>'n\<close> is the doubles with
    their rounding, \<open>NaN\<close>, infinities and signed zero. Concrete runs take \<open>'n\<close> to
    be \<open>real\<close>, at integer prices.
  \<^item> A quantity is a count, a \<open>nat\<close>: it starts at 1 and only changes by \<open>++\<close> and
    a guarded \<open>--\<close>. Where the script multiplies by it, \<open>numberOfCount\<close> gives the
    number that holds the count.
  \<^item> A string is a list of 8-bit characters.
  \<^item> The script stores the very same item objects in the order it creates
    (\<^verbatim>\<open>[...cart]\<close> copies the array, not the objects). Directly afterwards
    \<^verbatim>\<open>cart = []\<close> drops the only other references to them and every later add
    pushes a fresh object, so no later cart operation can reach an object held by an
    order. Lists of values therefore describe the arrays faithfully.
  \<^item> Markup written to the page is represented by the data it shows, not by its text;
    \<^verbatim>\<open>console.log\<close> is omitted.
  \<^item> What the script reads from its environment (the clock, the locale-formatted date,
    the attributes of the clicked element, the text typed by the user) is an argument of
    the handler or of the event.
\<close>

subsection \<open>Data\<close>

record 'n line_item =
  name :: string
  price :: 'n
  quantity :: nat

record 'n order_rec =
  orderId :: string
  items :: "'n line_item list"
  orderTotal :: 'n
  date :: string

text \<open>The result of \<^verbatim>\<open>parseInt\<close>: an integer or \<^verbatim>\<open>NaN\<close>.\<close>

datatype parsed_int = NaN | Num int

text \<open>The clicked element, as far as \<^verbatim>\<open>handleCartControlsClick\<close> reads it.\<close>

record click_target =
  classList :: "string list"
  dataIndex :: parsed_int

datatype js_error = TypeError

datatype modal = ShoppingCartModal | OrderConfirmationModal | OrderTrackerModal

text \<open>The callbacks handed to \<^verbatim>\<open>setTimeout\<close>, with the values their closures hold.\<close>

datatype 'n timer =
  CloseConfirmationTimer
| TrackResultTimer "'n order_rec option" string

datatype 'n status_text =
  EnterOrderNumber
| TrackingYourOrder
| OrderDetails "'n order_rec"
| OrderNotFound string
| PleaseEnterValid

datatype 'n cart_markup = EmptyCartMessage | CartRows "'n line_item list"

record 'n state =
  cart :: "'n line_item list"
  orders :: "'n order_rec list"
  cartCountText :: nat
  cartCountShown :: bool
  cartItemsMarkup :: "'n cart_markup"
  cartTotalText :: 'n
  buyAllDisabled :: bool
  shoppingCartModalOpen :: bool
  orderConfirmationModalOpen :: bool
  orderConfirmationMessage :: string
  orderTrackerModalOpen :: bool
  orderNumberInput :: string
  orderStatusText :: "'n status_text"
  orderStatusSuccess :: bool
  orderStatusError :: bool
  timers :: "'n timer list"

subsection \<open>Library functions of the language\<close>

text \<open>\<^verbatim>\<open>Array.prototype.findIndex\<close>: the first position whose element satisfies the
  predicate, \<open>-1\<close> when there is none.\<close>

fun findIndexFrom :: "int \<Rightarrow> ('a \<Rightarrow> bool) \<Rightarrow> 'a list \<Rightarrow> int" where
  "findIndexFrom k P [] = - 1"
| "findIndexFrom k P (x # xs) = (if P x then k else findIndexFrom (k + 1) P xs)"

definition findIndex :: "('a \<Rightarrow> bool) \<Rightarrow> 'a list \<Rightarrow> int" where
  "findIndex P xs = findIndexFrom 0 P xs"

text \<open>\<^verbatim>\<open>Array.prototype.find\<close>: the first element satisfying the predicate, or
  \<^verbatim>\<open>undefined\<close> (here \<open>None\<close>).\<close>

fun find_first :: "('a \<Rightarrow> bool) \<Rightarrow> 'a list \<Rightarrow> 'a option" where
  "find_first P [] = None"
| "find_first P (x # xs) = (if P x then Some x else find_first P xs)"

text \<open>\<^verbatim>\<open>arr[index]\<close> for a parsed index: \<^verbatim>\<open>undefined\<close> (here \<open>None\<close>) for
  \<^verbatim>\<open>NaN\<close>, a negative index and an index past the end.\<close>

fun elementAt :: "'a list \<Rightarrow> parsed_int \<Rightarrow> 'a option" where
  "elementAt xs NaN = None"
| "elementAt xs (Num i) = (if 0 \<le> i \<and> i < int (length xs) then Some (xs ! nat i) else None)"

text \<open>\<^verbatim>\<open>arr[index].f = g(arr[index].f)\<close>: the element at the index is replaced by its
  update; a \<^verbatim>\<open>TypeError\<close> when \<^verbatim>\<open>arr[index]\<close> is \<^verbatim>\<open>undefined\<close>.\<close>

definition modifyAt :: "('a \<Rightarrow> 'a) \<Rightarrow> parsed_int \<Rightarrow> 'a list \<Rightarrow> js_error + 'a list" where
  "modifyAt g index xs =
     (case elementAt xs index of
        None \<Rightarrow> Inl TypeError
      | Some x \<Rightarrow> Inr (xs[(case index of Num i \<Rightarrow> nat i | NaN \<Rightarrow> 0) := g x]))"

text \<open>\<^verbatim>\<open>arr.splice(start, deleteCount)\<close>, the array that remains. \<^verbatim>\<open>NaN\<close> counts as
  0, a negative start counts from the end, and both are clamped to the array.\<close>

definition splice :: "parsed_int \<Rightarrow> int \<Rightarrow> 'a list \<Rightarrow> 'a list" where
  "splice start deleteCount xs =
     (let len = int (length xs);
          relativeStart = (case start of NaN \<Rightarrow> 0 | Num i \<Rightarrow> i);
          actualStart = (if relativeStart < 0 then max (len + relativeStart) 0
                         else min relativeStart len);
          actualDeleteCount = min (max deleteCount 0) (len - actualStart)
      in take (nat actualStart) xs @ drop (nat (actualStart + actualDeleteCount)) xs)"

text \<open>\<^verbatim>\<open>Number.prototype.toString\<close> on an integer: its decimal digits, with a minus
  sign when negative.\<close>

definition digitChar :: "nat \<Rightarrow> char" where
  "digitChar d = ''0123456789'' ! d"

fun digits :: "nat \<Rightarrow> string" where
  "digits n = (if n < 10 then [digitChar n] else digits (n div 10) @ [digitChar (n mod 10)])"

declare digits.simps [simp del]

definition numberToString :: "int \<Rightarrow> string" where
  "numberToString i = (if i < 0 then CHR ''-'' # digits (nat (- i)) else digits (nat i))"

text \<open>\<^verbatim>\<open>String.prototype.slice(start)\<close> with the end left out.\<close>

definition slice :: "int \<Rightarrow> string \<Rightarrow> string" where
  "slice start s =
     (let len = int (length s);
          from = (if start < 0 then max (len + start) 0 else min start len)
      in drop (nat from) s)"

text \<open>\<^verbatim>\<open>String.prototype.trim\<close>. Among the characters below 256 the white space and
  line terminators of the language are tab, line feed, vertical tab, form feed, carriage
  return, space and no-break space.\<close>

definition isWhiteSpace :: "char \<Rightarrow> bool" where
  "isWhiteSpace c = (of_char c \<in> {9, 10, 11, 12, 13, 32, 160 :: nat})"

definition trim :: "string \<Rightarrow> string" where
  "trim s = rev (dropWhile isWhiteSpace (rev (dropWhile isWhiteSpace s)))"

subsection \<open>Helper functions of the script\<close>

text \<open>The number that holds a count, as the script builds it: the literal \<open>1\<close> of a new
  entry, and one more \<open>+ 1\<close> for every increment. (A count of 0 is never stored; it is
  given the number \<open>0\<close>.)\<close>

fun numberOfCount :: "nat \<Rightarrow> 'n::{zero,one,plus}" where
  "numberOfCount 0 = 0"
| "numberOfCount (Suc 0) = 1"
| "numberOfCount (Suc (Suc k)) = numberOfCount (Suc k) + 1"

definition updateCartCount :: "'n state \<Rightarrow> 'n state" where
  "updateCartCount s =
     (let totalItems = foldl (\<lambda>sum item. sum + quantity item) 0 (cart s)
      in s\<lparr>cartCountText := totalItems, cartCountShown := (totalItems > 0)\<rparr>)"

text \<open>On an empty cart the function returns before it reaches \<^verbatim>\<open>updateCartCount\<close>.\<close>

definition updateCartDisplay :: "('n::{zero,one,plus,times}) state \<Rightarrow> 'n state" where
  "updateCartDisplay s =
     (if length (cart s) = 0
      then s\<lparr>cartItemsMarkup := EmptyCartMessage, cartTotalText := 0, buyAllDisabled := True\<rparr>
      else
        (let total = foldl (\<lambda>t item. t + price item * numberOfCount (quantity item)) 0 (cart s)
         in updateCartCount
              (s\<lparr>cartItemsMarkup := CartRows (cart s), cartTotalText := total,
                 buyAllDisabled := False\<rparr>)))"

definition addItemToCart :: "string \<Rightarrow> 'n \<Rightarrow> ('n::{zero,one,plus,times}) state \<Rightarrow> 'n state" where
  "addItemToCart nm pr s =
     (let existingItemIndex = findIndex (\<lambda>item. name item = nm) (cart s)
      in updateCartDisplay
           (if existingItemIndex > - 1
            then s\<lparr>cart := (cart s)[nat existingItemIndex :=
                     (cart s ! nat existingItemIndex)
                       \<lparr>quantity := quantity (cart s ! nat existingItemIndex) + 1\<rparr>]\<rparr>
            else s\<lparr>cart := cart s @ [\<lparr>name = nm, price = pr, quantity = 1\<rparr>]\<rparr>))"

fun openModal :: "modal \<Rightarrow> 'n state \<Rightarrow> 'n state" where
  "openModal ShoppingCartModal s = s\<lparr>shoppingCartModalOpen := True\<rparr>"
| "openModal OrderConfirmationModal s = s\<lparr>orderConfirmationModalOpen := True\<rparr>"
| "openModal OrderTrackerModal s = s\<lparr>orderTrackerModalOpen := True\<rparr>"

fun closeModal :: "modal \<Rightarrow> 'n state \<Rightarrow> 'n state" where
  "closeModal ShoppingCartModal s = s\<lparr>shoppingCartModalOpen := False\<rparr>"
| "closeModal OrderConfirmationModal s = s\<lparr>orderConfirmationModalOpen := False\<rparr>"
| "closeModal OrderTrackerModal s = s\<lparr>orderTrackerModalOpen := False\<rparr>"

definition showOrderConfirmation :: "string \<Rightarrow> 'n state \<Rightarrow> 'n state" where
  "showOrderConfirmation oid s =
     (let s1 = s\<lparr>orderConfirmationMessage := oid\<rparr>;
          s2 = openModal OrderConfirmationModal s1
      in s2\<lparr>timers := timers s2 @ [CloseConfirmationTimer]\<rparr>)"

definition findOrder :: "string \<Rightarrow> 'n order_rec list \<Rightarrow> 'n order_rec option" where
  "findOrder orderNumber os = find_first (\<lambda>order. orderId order = orderNumber) os"

definition trackOrder :: "string \<Rightarrow> 'n state \<Rightarrow> 'n state" where
  "trackOrder orderNumber s =
     (let s1 = s\<lparr>orderStatusSuccess := False, orderStatusError := False\<rparr>;
          s2 = s1\<lparr>orderStatusText := TrackingYourOrder\<rparr>;
          foundOrder = findOrder orderNumber (orders s2)
      in s2\<lparr>timers := timers s2 @ [TrackResultTimer foundOrder orderNumber]\<rparr>)"

text \<open>What a timer does when it fires.\<close>

fun runTimer :: "'n timer \<Rightarrow> 'n state \<Rightarrow> 'n state" where
  "runTimer CloseConfirmationTimer s = closeModal OrderConfirmationModal s"
| "runTimer (TrackResultTimer (Some foundOrder) orderNumber) s =
     s\<lparr>orderStatusText := OrderDetails foundOrder, orderStatusSuccess := True\<rparr>"
| "runTimer (TrackResultTimer None orderNumber) s =
     s\<lparr>orderStatusText := OrderNotFound orderNumber, orderStatusError := True\<rparr>"

subsection \<open>Event handlers\<close>

definition handleAddToCartClick :: "string \<Rightarrow> 'n \<Rightarrow> ('n::{zero,one,plus,times}) state \<Rightarrow> 'n state" where
  "handleAddToCartClick productName productPrice s = addItemToCart productName productPrice s"

definition handleBuyNowClick :: "string \<Rightarrow> 'n \<Rightarrow> ('n::{zero,one,plus,times}) state \<Rightarrow> 'n state" where
  "handleBuyNowClick productName productPrice s =
     openModal ShoppingCartModal (addItemToCart productName productPrice s)"

text \<open>Reading \<^verbatim>\<open>.quantity\<close> of \<^verbatim>\<open>undefined\<close> throws before anything is changed, and
  the exception leaves the handler before \<^verbatim>\<open>updateCartDisplay\<close>.\<close>

definition handleCartControlsClick ::
  "click_target \<Rightarrow> ('n::{zero,one,plus,times}) state \<Rightarrow> js_error + 'n state" where
  "handleCartControlsClick target s =
     (let index = dataIndex target in
      if ''increase-quantity-btn'' \<in> set (classList target) then
        (case modifyAt (\<lambda>item. item\<lparr>quantity := quantity item + 1\<rparr>) index (cart s) of
           Inl e \<Rightarrow> Inl e
         | Inr c \<Rightarrow> Inr (updateCartDisplay (s\<lparr>cart := c\<rparr>)))
      else if ''decrease-quantity-btn'' \<in> set (classList target) then
        (case elementAt (cart s) index of
           None \<Rightarrow> Inl TypeError
         | Some item \<Rightarrow>
             if quantity item > 1 then
               (case modifyAt (\<lambda>item. item\<lparr>quantity := quantity item - 1\<rparr>) index (cart s) of
                  Inl e \<Rightarrow> Inl e
                | Inr c \<Rightarrow> Inr (updateCartDisplay (s\<lparr>cart := c\<rparr>)))
             else Inr (updateCartDisplay (s\<lparr>cart := splice index 1 (cart s)\<rparr>)))
      else if ''remove-item-btn'' \<in> set (classList target) then
        Inr (updateCartDisplay (s\<lparr>cart := splice index 1 (cart s)\<rparr>))
      else Inr (updateCartDisplay s))"

definition handleBuyAllItemsClick ::
  "int \<Rightarrow> string \<Rightarrow> ('n::{zero,one,plus,times}) state \<Rightarrow> 'n state" where
  "handleBuyAllItemsClick now localeDate s =
     (if length (cart s) > 0 then
        (let oid = slice (- 6) (numberToString now);
             tot = foldl (\<lambda>sum item. sum + price item * numberOfCount (quantity item)) 0 (cart s);
             s1 = s\<lparr>orders := orders s @
                    [\<lparr>orderId = oid, items = cart s, orderTotal = tot, date = localeDate\<rparr>]\<rparr>;
             s2 = s1\<lparr>cart := []\<rparr>;
             s3 = updateCartDisplay s2;
             s4 = closeModal ShoppingCartModal s3
         in showOrderConfirmation oid s4)
      else s)"

definition handleOrderTrackerLinkClick :: "'n state \<Rightarrow> 'n state" where
  "handleOrderTrackerLinkClick s =
     (openModal OrderTrackerModal s)
       \<lparr>orderNumberInput := [], orderStatusText := EnterOrderNumber,
        orderStatusSuccess := False, orderStatusError := False\<rparr>"

definition handleTrackOrderBtnClick :: "'n state \<Rightarrow> 'n state" where
  "handleTrackOrderBtnClick s =
     (let orderNumber = trim (orderNumberInput s)
      in if orderNumber \<noteq> [] then trackOrder orderNumber s
         else s\<lparr>orderStatusText := PleaseEnterValid, orderStatusError := True\<rparr>)"

text \<open>The handler of \<^verbatim>\<open>DOMContentLoaded\<close>, after wiring the listeners.\<close>

definition handleDOMContentLoaded :: "('n::{zero,one,plus,times}) state \<Rightarrow> 'n state" where
  "handleDOMContentLoaded s = updateCartCount (updateCartDisplay s)"

subsection \<open>The page as a transition system\<close>

text \<open>One event per listener the script registers, with what the handler reads from
  its environment; the user typing into the order-number field; and a pending timer
  firing. Any pending timer may fire next, which covers every order of deadlines.\<close>

datatype 'n event =
  AddToCartClick string 'n
| BuyNowClick string 'n
| CartIconClick
| CloseButtonClick modal
| CloseConfirmationClick
| BuyAllItemsClick int string
| CartControlsClick click_target
| OrderTrackerLinkClick
| CloseTrackerClick
| TrackOrderBtnClick
| UserTypesOrderNumber string
| TimerFires nat

text \<open>An exception thrown by a handler ends that handler; the page goes on in the
  state reached so far, which for \<^verbatim>\<open>handleCartControlsClick\<close> is the state before.\<close>

fun step :: "'n event \<Rightarrow> ('n::{zero,one,plus,times}) state \<Rightarrow> 'n state" where
  "step (AddToCartClick nm pr) s = handleAddToCartClick nm pr s"
| "step (BuyNowClick nm pr) s = handleBuyNowClick nm pr s"
| "step CartIconClick s = openModal ShoppingCartModal s"
| "step (CloseButtonClick m) s = closeModal m s"
| "step CloseConfirmationClick s = closeModal OrderConfirmationModal s"
| "step (BuyAllItemsClick now localeDate) s = handleBuyAllItemsClick now localeDate s"
| "step (CartControlsClick target) s =
     (case handleCartControlsClick target s of Inl e \<Rightarrow> s | Inr s' \<Rightarrow> s')"
| "step OrderTrackerLinkClick s = handleOrderTrackerLinkClick s"
| "step CloseTrackerClick s = closeModal OrderTrackerModal s"
| "step TrackOrderBtnClick s = handleTrackOrderBtnClick s"
| "step (UserTypesOrderNumber v) s = s\<lparr>orderNumberInput := v\<rparr>"
| "step (TimerFires k) s =
     (if k < length (timers s)
      then runTimer (timers s ! k) (s\<lparr>timers := take k (timers s) @ drop (Suc k) (timers s)\<rparr>)
      else s)"

definition run :: "'n event list \<Rightarrow> ('n::{zero,one,plus,times}) state \<Rightarrow> 'n state" where
  "run es s = foldl (\<lambda>s e. step e s) s es"

text \<open>The script starts with both arrays empty and no timer pending; the page elements
  are whatever the markup makes them, and \<^verbatim>\<open>DOMContentLoaded\<close> runs once.\<close>

definition initialState :: "('n::{zero,one,plus,times}) state \<Rightarrow> 'n state" where
  "initialState page = handleDOMContentLoaded (page\<lparr>cart := [], orders := [], timers := []\<rparr>)"

text \<open>A page with nothing shown, used for concrete runs.\<close>

definition blankPage :: "'n::zero state" where
  "blankPage =
     \<lparr>cart = [], orders = [], cartCountText = 0, cartCountShown = False,
      cartItemsMarkup = EmptyCartMessage, cartTotalText = 0, buyAllDisabled = True,
      shoppingCartModalOpen = False, orderConfirmationModalOpen = False,
      orderConfirmationMessage = [], orderTrackerModalOpen = False, orderNumberInput = [],
      orderStatusText = EnterOrderNumber, orderStatusSuccess = False,
      orderStatusError = False, timers = []\<rparr>"

text \<open>The invariant of the cart: one line item per name, every quantity at least 1.\<close>

definition cartInv :: "'n line_item list \<Rightarrow> bool" where
  "cartInv c = (distinct (map name c) \<and> list_all (\<lambda>item. 1 \<le> quantity item) c)"

text \<open>The spec's words for the total, "the sum of price times quantity over the
  entries", read in the arithmetic of the numbers: the sum of the first \<open>k\<close> terms of a
  sequence starts from \<open>0\<close> and the sum of \<open>k + 1\<close> terms is the sum of \<open>k\<close> terms plus
  the next term. \<open>sumOfPriceTimesQuantity\<close> is that sum for the entries of a cart, in
  their order.\<close>

fun sumOfFirst :: "nat \<Rightarrow> (nat \<Rightarrow> 'n) \<Rightarrow> 'n::{zero,plus}" where
  "sumOfFirst 0 a = 0"
| "sumOfFirst (Suc k) a = sumOfFirst k a + a k"

definition sumOfPriceTimesQuantity :: "('n::{zero,one,plus,times}) line_item list \<Rightarrow> 'n" where
  "sumOfPriceTimesQuantity c =
     sumOfFirst (length c) (\<lambda>i. price (c ! i) * numberOfCount (quantity (c ! i)))"

section \<open>Properties\<close>

subsection \<open>Auxiliary facts\<close>

lemma sumOfFirst_cong:
  "(\<And>i. i < k \<Longrightarrow> a i = b i) \<Longrightarrow> sumOfFirst k a = sumOfFirst k b"
  by (induction k) simp_all

lemma foldl_sumOfFirst:
  "foldl (\<lambda>sum item. sum + g item) 0 xs = sumOfFirst (length xs) (\<lambda>i. g (xs ! i))"
proof (induction xs rule: rev_induct)
  case Nil
  show ?case by simp
next
  case (snoc x xs)
  have "sumOfFirst (length xs) (\<lambda>i. g ((xs @ [x]) ! i)) = sumOfFirst (length xs) (\<lambda>i. g (xs ! i))"
    by (rule sumOfFirst_cong) (simp add: nth_append)
  with snoc show ?case by simp
qed

lemma cart_total_sum:
  "foldl (\<lambda>sum item. sum + price item * numberOfCount (quantity item)) 0 c
     = sumOfPriceTimesQuantity c"
  unfolding sumOfPriceTimesQuantity_def by (rule foldl_sumOfFirst)

text \<open>Where the arithmetic is exact, the number of a count is the count.\<close>

lemma numberOfCount_of_nat: "numberOfCount k = (of_nat k :: 'a::semiring_1)"
  by (induction k rule: numberOfCount.induct) (simp_all add: add.commute)

lemma foldl_add_sum:
  fixes a :: "'a::monoid_add"
  shows "foldl (\<lambda>sum item. sum + f item) a xs = a + sum_list (map f xs)"
  by (induction xs arbitrary: a) (simp_all add: add.assoc)

text \<open>Where the arithmetic is exact (a semiring), the sum in the order of the entries is the
  mathematical sum of price times quantity. For doubles this is the case as long as every
  product and partial sum is representable.\<close>

lemma sumOfPriceTimesQuantity_exact:
  fixes c :: "'a::semiring_1 line_item list"
  shows "sumOfPriceTimesQuantity c = (\<Sum>item\<leftarrow>c. price item * of_nat (quantity item))"
  by (simp add: cart_total_sum [symmetric] foldl_add_sum numberOfCount_of_nat)

lemma cart_updateCartCount [simp]: "cart (updateCartCount s) = cart s"
  by (simp add: updateCartCount_def Let_def)

lemma orders_updateCartCount [simp]: "orders (updateCartCount s) = orders s"
  by (simp add: updateCartCount_def Let_def)

lemma timers_updateCartCount [simp]: "timers (updateCartCount s) = timers s"
  by (simp add: updateCartCount_def Let_def)

lemma cart_updateCartDisplay [simp]: "cart (updateCartDisplay s) = cart s"
  by (simp add: updateCartDisplay_def Let_def)

lemma orders_updateCartDisplay [simp]: "orders (updateCartDisplay s) = orders s"
  by (simp add: updateCartDisplay_def Let_def)

lemma timers_updateCartDisplay [simp]: "timers (updateCartDisplay s) = timers s"
  by (simp add: updateCartDisplay_def Let_def)

lemma cart_openModal [simp]: "cart (openModal m s) = cart s"
  by (cases m) simp_all

lemma orders_openModal [simp]: "orders (openModal m s) = orders s"
  by (cases m) simp_all

lemma timers_openModal [simp]: "timers (openModal m s) = timers s"
  by (cases m) simp_all

lemma cart_closeModal [simp]: "cart (closeModal m s) = cart s"
  by (cases m) simp_all

lemma orders_closeModal [simp]: "orders (closeModal m s) = orders s"
  by (cases m) simp_all

lemma timers_closeModal [simp]: "timers (closeModal m s) = timers s"
  by (cases m) simp_all

lemma cart_showOrderConfirmation [simp]: "cart (showOrderConfirmation oid s) = cart s"
  by (simp add: showOrderConfirmation_def Let_def)

lemma orders_showOrderConfirmation [simp]: "orders (showOrderConfirmation oid s) = orders s"
  by (simp add: showOrderConfirmation_def Let_def)

lemma cart_checkout:
  "cart (handleBuyAllItemsClick now d s) = []"
  by (simp add: handleBuyAllItemsClick_def Let_def)

lemma orders_checkout:
  "cart s \<noteq> [] \<Longrightarrow>
   orders (handleBuyAllItemsClick now d s) =
     orders s @ [\<lparr>orderId = slice (- 6) (numberToString now), items = cart s,
                  orderTotal = sumOfPriceTimesQuantity (cart s),
                  date = d\<rparr>]"
  by (simp add: handleBuyAllItemsClick_def Let_def cart_total_sum)

lemma digits_small: "n < 10 \<Longrightarrow> digits n = [digitChar n]"
  by (simp add: digits.simps)

lemma digits_large: "10 \<le> n \<Longrightarrow> digits n = digits (n div 10) @ [digitChar (n mod 10)]"
  by (subst digits.simps) simp

lemmas eval_defs = addItemToCart_def findIndex_def updateCartDisplay_def updateCartCount_def
  Let_def initialState_def blankPage_def handleDOMContentLoaded_def handleBuyAllItemsClick_def
  showOrderConfirmation_def slice_def numberToString_def handleAddToCartClick_def
  handleBuyNowClick_def run_def digits_small digits_large digitChar_def
  sumOfPriceTimesQuantity_def numberOfCount_of_nat

subsection \<open>Checkout\<close>

text \<open>
  C1. For every non-empty cart, checkout appends exactly one new order to the order store.
  Its item snapshot is the cart as it was immediately before, its total is the sum of
  price times quantity over those entries, and the cart is empty afterwards. The sum is
  taken in the script's own arithmetic, entry by entry in cart order, as the \<^verbatim>\<open>reduce\<close>
  of the script accumulates it; it is also the total that the cart display computes for
  that cart. (For the price 0.1 added three times the total is \<open>0 + 0.1 * 3\<close> in the
  arithmetic of doubles, the double 0.30000000000000004 that the script stores.)
\<close>

theorem checkout_nonempty:
  assumes "cart s \<noteq> []"
  shows "orders (handleBuyAllItemsClick now d s) =
           orders s @ [\<lparr>orderId = slice (- 6) (numberToString now), items = cart s,
                        orderTotal = sumOfPriceTimesQuantity (cart s),
                        date = d\<rparr>]
         \<and> length (orders (handleBuyAllItemsClick now d s)) = length (orders s) + 1
         \<and> cart (handleBuyAllItemsClick now d s) = []
         \<and> orderTotal (last (orders (handleBuyAllItemsClick now d s))) =
             foldl (\<lambda>sum item. sum + price item * numberOfCount (quantity item)) 0 (cart s)
         \<and> orderTotal (last (orders (handleBuyAllItemsClick now d s))) =
             cartTotalText (updateCartDisplay s)"
proof -
  have "cartTotalText (updateCartDisplay s) = sumOfPriceTimesQuantity (cart s)"
    using assms by (simp add: updateCartDisplay_def updateCartCount_def Let_def cart_total_sum)
  then show ?thesis
    using assms by (simp add: orders_checkout cart_checkout cart_total_sum)
qed

theorem checkout_nonempty_witness:
  "cart (run [AddToCartClick ''Hoodie'' 1200, AddToCartClick ''Hoodie'' 1200,
              AddToCartClick ''Cap'' 300] (initialState (blankPage :: real state)))
     = [\<lparr>name = ''Hoodie'', price = 1200, quantity = 2\<rparr>,
        \<lparr>name = ''Cap'', price = 300, quantity = 1\<rparr>]
   \<and> orders (handleBuyAllItemsClick 1700000123456 ''2/11/2026, 10:15:00 am''
        (run [AddToCartClick ''Hoodie'' 1200, AddToCartClick ''Hoodie'' 1200,
              AddToCartClick ''Cap'' 300] (initialState (blankPage :: real state)))) =
       [\<lparr>orderId = ''123456'',
         items = [\<lparr>name = ''Hoodie'', price = 1200, quantity = 2\<rparr>,
                  \<lparr>name = ''Cap'', price = 300, quantity = 1\<rparr>],
         orderTotal = 2700, date = ''2/11/2026, 10:15:00 am''\<rparr>]
   \<and> cart (handleBuyAllItemsClick 1700000123456 ''2/11/2026, 10:15:00 am''
        (run [AddToCartClick ''Hoodie'' 1200, AddToCartClick ''Hoodie'' 1200,
              AddToCartClick ''Cap'' 300] (initialState (blankPage :: real state)))) = []
   \<and> cartTotalText
        (run [AddToCartClick ''Hoodie'' 1200, AddToCartClick ''Hoodie'' 1200,
              AddToCartClick ''Cap'' 300] (initialState (blankPage :: real state))) = 2700"
proof -
  let ?s = "run [AddToCartClick ''Hoodie'' 1200, AddToCartClick ''Hoodie'' 1200,
                 AddToCartClick ''Cap'' 300] (initialState (blankPage :: real state))"
  let ?s' = "handleBuyAllItemsClick 1700000123456 ''2/11/2026, 10:15:00 am'' ?s"
  have c: "cart ?s = [\<lparr>name = ''Hoodie'', price = 1200, quantity = 2\<rparr>,
                      \<lparr>name = ''Cap'', price = 300, quantity = 1\<rparr>]"
    by (simp add: eval_defs)
  have o: "orders ?s = []"
    by (simp add: eval_defs)
  have shown: "cartTotalText ?s = 2700"
    by (simp add: eval_defs)
  have i: "slice (- 6) (numberToString 1700000123456) = ''123456''"
    by (simp add: eval_defs)
  have ne: "cart ?s \<noteq> []"
    by (simp add: c)
  have tot: "sumOfPriceTimesQuantity
               [\<lparr>name = ''Hoodie'', price = 1200 :: real, quantity = 2\<rparr>,
                \<lparr>name = ''Cap'', price = 300, quantity = 1\<rparr>] = 2700"
    by (simp add: sumOfPriceTimesQuantity_def numberOfCount_of_nat numeral_2_eq_2)
  note t = checkout_nonempty [OF ne, of 1700000123456 "''2/11/2026, 10:15:00 am''"]
  from t have "orders ?s' =
      orders ?s @ [\<lparr>orderId = slice (- 6) (numberToString 1700000123456), items = cart ?s,
                     orderTotal = sumOfPriceTimesQuantity (cart ?s),
                     date = ''2/11/2026, 10:15:00 am''\<rparr>]"
    and e: "cart ?s' = []"
    by blast+
  then have "orders ?s' =
       [\<lparr>orderId = ''123456'',
         items = [\<lparr>name = ''Hoodie'', price = 1200, quantity = 2\<rparr>,
                  \<lparr>name = ''Cap'', price = 300, quantity = 1\<rparr>],
         orderTotal = 2700, date = ''2/11/2026, 10:15:00 am''\<rparr>]"
    by (simp only: tot i o c append_Nil)
  with c e shown show ?thesis
    by blast
qed

text \<open>
  C2. On the empty cart checkout is a no-op: the whole state, and so the order store and
  the (empty) cart, is unchanged.
\<close>

theorem checkout_empty:
  "cart s = [] \<Longrightarrow> handleBuyAllItemsClick now d s = s"
  by (simp add: handleBuyAllItemsClick_def)

theorem checkout_empty_witness:
  "cart (initialState (blankPage :: real state)) = []
   \<and> handleBuyAllItemsClick 1700000123456 ''d'' (initialState (blankPage :: real state)) = initialState (blankPage :: real state)"
proof -
  have c: "cart (initialState (blankPage :: real state)) = []"
    by (simp add: eval_defs)
  show ?thesis
    using checkout_empty [OF c, of 1700000123456 "''d''"] c by simp
qed

subsection \<open>Adding to the cart\<close>

lemma findIndexFrom_eq:
  "findIndexFrom k P xs =
     (if \<exists>x\<in>set xs. P x then k + int (length (takeWhile (\<lambda>x. \<not> P x) xs)) else - 1)"
  by (induction xs arbitrary: k) auto

lemma findIndex_eq:
  "findIndex P xs =
     (if \<exists>x\<in>set xs. P x then int (length (takeWhile (\<lambda>x. \<not> P x) xs)) else - 1)"
  by (simp add: findIndex_def findIndexFrom_eq)

lemma first_match_lt:
  "\<exists>x\<in>set xs. P x \<Longrightarrow> length (takeWhile (\<lambda>x. \<not> P x) xs) < length xs"
  by (induction xs) auto

lemma first_match_holds:
  "\<exists>x\<in>set xs. P x \<Longrightarrow> P (xs ! length (takeWhile (\<lambda>x. \<not> P x) xs))"
  by (induction xs) auto

lemma first_match_least:
  "j < length (takeWhile (\<lambda>x. \<not> P x) xs) \<Longrightarrow> \<not> P (xs ! j)"
proof (induction xs arbitrary: j)
  case Nil
  then show ?case by simp
next
  case (Cons x xs)
  then show ?case by (cases j) (auto split: if_splits)
qed

lemmas first_match_props = first_match_lt first_match_holds first_match_least

lemma cart_addItemToCart:
  "cart (addItemToCart nm pr s) =
     (if nm \<in> name ` set (cart s)
      then (cart s)[length (takeWhile (\<lambda>item. name item \<noteq> nm) (cart s)) :=
              (cart s ! length (takeWhile (\<lambda>item. name item \<noteq> nm) (cart s)))
                \<lparr>quantity :=
                   quantity (cart s ! length (takeWhile (\<lambda>item. name item \<noteq> nm) (cart s))) + 1\<rparr>]
      else cart s @ [\<lparr>name = nm, price = pr, quantity = 1\<rparr>])"
  by (auto simp add: addItemToCart_def Let_def findIndex_eq image_iff)

lemma cart_add_present:
  "nm \<in> name ` set (cart s) \<Longrightarrow>
   cart (addItemToCart nm pr s) =
     (cart s)[length (takeWhile (\<lambda>item. name item \<noteq> nm) (cart s)) :=
        (cart s ! length (takeWhile (\<lambda>item. name item \<noteq> nm) (cart s)))
          \<lparr>quantity :=
             quantity (cart s ! length (takeWhile (\<lambda>item. name item \<noteq> nm) (cart s))) + 1\<rparr>]"
  by (simp add: cart_addItemToCart)

lemma cart_add_absent:
  "nm \<notin> name ` set (cart s) \<Longrightarrow>
   cart (addItemToCart nm pr s) = cart s @ [\<lparr>name = nm, price = pr, quantity = 1\<rparr>]"
  by (simp add: cart_addItemToCart)

text \<open>
  C4. Adding a product whose name is already in the cart increments the quantity of the
  existing entry (the first one with that name) by 1 and appends nothing; adding a name that
  is not in the cart appends a line item with quantity 1 behind the other entries, which
  keep their order. Adding the same name twice to an empty cart gives one entry with
  quantity 2.
\<close>

theorem addItemToCart_merges_by_name:
  "(nm \<in> name ` set (cart s) \<longrightarrow>
      (\<exists>i<length (cart s).
         name (cart s ! i) = nm \<and> (\<forall>j<i. name (cart s ! j) \<noteq> nm) \<and>
         cart (addItemToCart nm pr s) =
           (cart s)[i := (cart s ! i)\<lparr>quantity := quantity (cart s ! i) + 1\<rparr>]) \<and>
      length (cart (addItemToCart nm pr s)) = length (cart s))
   \<and> (nm \<notin> name ` set (cart s) \<longrightarrow>
        cart (addItemToCart nm pr s) = cart s @ [\<lparr>name = nm, price = pr, quantity = 1\<rparr>])
   \<and> cart (addItemToCart nm pr' (addItemToCart nm pr (s\<lparr>cart := []\<rparr>))) =
        [\<lparr>name = nm, price = pr, quantity = 2\<rparr>]"
proof (intro conjI impI)
  assume in_cart: "nm \<in> name ` set (cart s)"
  let ?i = "length (takeWhile (\<lambda>item. name item \<noteq> nm) (cart s))"
  from in_cart have ex: "\<exists>x\<in>set (cart s). name x = nm" by auto
  note fm = first_match_props
  show "\<exists>i<length (cart s).
         name (cart s ! i) = nm \<and> (\<forall>j<i. name (cart s ! j) \<noteq> nm) \<and>
         cart (addItemToCart nm pr s) =
           (cart s)[i := (cart s ! i)\<lparr>quantity := quantity (cart s ! i) + 1\<rparr>]"
    using fm(1,2) [OF ex] fm(3) [of _ "\<lambda>x. name x = nm" "cart s"] in_cart
    by (intro exI [of _ ?i]) (simp add: cart_addItemToCart)
  show "length (cart (addItemToCart nm pr s)) = length (cart s)"
    using in_cart by (simp add: cart_addItemToCart)
next
  assume "nm \<notin> name ` set (cart s)"
  then show "cart (addItemToCart nm pr s) = cart s @ [\<lparr>name = nm, price = pr, quantity = 1\<rparr>]"
    by (simp add: cart_addItemToCart)
next
  show "cart (addItemToCart nm pr' (addItemToCart nm pr (s\<lparr>cart := []\<rparr>))) =
        [\<lparr>name = nm, price = pr, quantity = 2\<rparr>]"
    by (simp add: cart_addItemToCart)
qed


theorem addItemToCart_merges_by_name_witness:
  "''Hoodie'' \<in> name ` set (cart (addItemToCart ''Hoodie'' 1200 (initialState (blankPage :: real state))))
   \<and> cart (addItemToCart ''Hoodie'' 1500 (addItemToCart ''Hoodie'' 1200 (initialState (blankPage :: real state))))
       = [\<lparr>name = ''Hoodie'', price = 1200, quantity = 2\<rparr>]
   \<and> ''Cap'' \<notin> name ` set (cart (addItemToCart ''Hoodie'' 1200 (initialState (blankPage :: real state))))
   \<and> cart (addItemToCart ''Cap'' 300 (addItemToCart ''Hoodie'' 1200 (initialState (blankPage :: real state))))
       = [\<lparr>name = ''Hoodie'', price = 1200, quantity = 1\<rparr>,
          \<lparr>name = ''Cap'', price = 300, quantity = 1\<rparr>]"
proof -
  let ?s = "addItemToCart ''Hoodie'' 1200 (initialState (blankPage :: real state))"
  have c: "cart ?s = [\<lparr>name = ''Hoodie'', price = 1200, quantity = 1\<rparr>]"
    by (simp add: eval_defs)
  have h1: "''Hoodie'' \<in> name ` set (cart ?s)" and h2: "''Cap'' \<notin> name ` set (cart ?s)"
    by (simp_all add: c)
  from addItemToCart_merges_by_name [of "''Hoodie''" ?s 1500] h1
  have "\<exists>i<length (cart ?s). cart (addItemToCart ''Hoodie'' 1500 ?s) =
          (cart ?s)[i := (cart ?s ! i)\<lparr>quantity := quantity (cart ?s ! i) + 1\<rparr>]"
    by blast
  then have r1: "cart (addItemToCart ''Hoodie'' 1500 ?s) =
                   [\<lparr>name = ''Hoodie'', price = 1200, quantity = 2\<rparr>]"
    by (auto simp add: c)
  from addItemToCart_merges_by_name [of "''Cap''" ?s 300] h2
  have r2: "cart (addItemToCart ''Cap'' 300 ?s) =
              cart ?s @ [\<lparr>name = ''Cap'', price = 300, quantity = 1\<rparr>]"
    by blast
  show ?thesis
    using h1 h2 r1 r2 by (simp add: c)
qed

lemma map_update_same:
  assumes "f y = f (xs ! i)"
  shows "map f (xs[i := y]) = map f xs"
proof (cases "i < length xs")
  case True
  with assms have "(map f xs)[i := f y] = (map f xs)[i := map f xs ! i]" by simp
  then show ?thesis by (simp add: map_update)
next
  case False
  then have "length xs \<le> i" by simp
  then have "xs[i := y] = xs" by (rule list_update_beyond)
  then show ?thesis by simp
qed

lemma addItemToCart_twice_new:
  assumes "nm \<notin> name ` set (cart s)"
  shows "cart (addItemToCart nm pr' (addItemToCart nm pr s)) =
           cart s @ [\<lparr>name = nm, price = pr, quantity = 2\<rparr>]"
proof -
  let ?new = "\<lparr>name = nm, price = pr, quantity = 1\<rparr>"
  let ?s1 = "addItemToCart nm pr s"
  have c1: "cart ?s1 = cart s @ [?new]"
    using assms by (simp add: cart_addItemToCart)
  have tw: "takeWhile (\<lambda>item. name item \<noteq> nm) (cart ?s1) = cart s"
  proof -
    from assms have "\<forall>x\<in>set (cart s). name x \<noteq> nm" by auto
    then show ?thesis by (simp add: c1 takeWhile_append2)
  qed
  have "nm \<in> name ` set (cart ?s1)"
    by (simp add: c1)
  then have "cart (addItemToCart nm pr' ?s1) =
      (cart ?s1)[length (takeWhile (\<lambda>item. name item \<noteq> nm) (cart ?s1)) :=
         (cart ?s1 ! length (takeWhile (\<lambda>item. name item \<noteq> nm) (cart ?s1)))
           \<lparr>quantity :=
              quantity (cart ?s1 ! length (takeWhile (\<lambda>item. name item \<noteq> nm) (cart ?s1))) + 1\<rparr>]"
    by (rule cart_add_present)
  then have "cart (addItemToCart nm pr' ?s1) =
      (cart ?s1)[length (cart s) :=
         (cart ?s1 ! length (cart s))\<lparr>quantity := quantity (cart ?s1 ! length (cart s)) + 1\<rparr>]"
    by (simp only: tw)
  then show ?thesis
    by (simp add: c1)
qed

lemma addItemToCart_price_irrelevant:
  "nm \<in> name ` set (cart s) \<Longrightarrow> addItemToCart nm pr s = addItemToCart nm pr' s"
  by (auto simp add: addItemToCart_def Let_def findIndex_eq)

text \<open>
  C9. When the cart already holds an entry with the given name, adding that name with any
  price increments the quantity of that entry and leaves every stored price (and name)
  unchanged; the resulting state does not depend on the price argument at all. The cart so
  keeps the price supplied by the first add of the name.
\<close>

theorem addItemToCart_discards_new_price:
  "(nm \<in> name ` set (cart s) \<longrightarrow>
      map price (cart (addItemToCart nm pr s)) = map price (cart s)
      \<and> map name (cart (addItemToCart nm pr s)) = map name (cart s)
      \<and> (\<exists>i<length (cart s).
            name (cart s ! i) = nm \<and> (\<forall>j<i. name (cart s ! j) \<noteq> nm) \<and>
            map quantity (cart (addItemToCart nm pr s)) =
              (map quantity (cart s))[i := quantity (cart s ! i) + 1])
      \<and> addItemToCart nm pr s = addItemToCart nm pr' s)
   \<and> (nm \<notin> name ` set (cart s) \<longrightarrow>
        cart (addItemToCart nm pr' (addItemToCart nm pr s)) =
          cart s @ [\<lparr>name = nm, price = pr, quantity = 2\<rparr>])"
proof (intro conjI impI)
  assume in_cart: "nm \<in> name ` set (cart s)"
  let ?i = "length (takeWhile (\<lambda>item. name item \<noteq> nm) (cart s))"
  from in_cart have ex: "\<exists>x\<in>set (cart s). name x = nm" by auto
  have lt: "?i < length (cart s)" and nm: "name (cart s ! ?i) = nm"
    using first_match_lt [OF ex] first_match_holds [OF ex] by simp_all
  have least: "\<forall>j<?i. name (cart s ! j) \<noteq> nm"
    using first_match_least [of _ "\<lambda>x. name x = nm" "cart s"] by simp
  have upd: "cart (addItemToCart nm pr s) =
               (cart s)[?i := (cart s ! ?i)\<lparr>quantity := quantity (cart s ! ?i) + 1\<rparr>]"
    using in_cart by (simp add: cart_addItemToCart)
  show "map price (cart (addItemToCart nm pr s)) = map price (cart s)"
    by (simp add: upd map_update_same)
  show "map name (cart (addItemToCart nm pr s)) = map name (cart s)"
    by (simp add: upd map_update_same)
  show "\<exists>i<length (cart s).
            name (cart s ! i) = nm \<and> (\<forall>j<i. name (cart s ! j) \<noteq> nm) \<and>
            map quantity (cart (addItemToCart nm pr s)) =
              (map quantity (cart s))[i := quantity (cart s ! i) + 1]"
    using lt nm least by (intro exI [of _ ?i]) (simp add: upd map_update)
  show "addItemToCart nm pr s = addItemToCart nm pr' s"
    using in_cart by (rule addItemToCart_price_irrelevant)
next
  assume "nm \<notin> name ` set (cart s)"
  then show "cart (addItemToCart nm pr' (addItemToCart nm pr s)) =
          cart s @ [\<lparr>name = nm, price = pr, quantity = 2\<rparr>]"
    by (rule addItemToCart_twice_new)
qed


theorem addItemToCart_discards_new_price_witness:
  "''Hoodie'' \<in> name ` set (cart (addItemToCart ''Hoodie'' 1200 (initialState (blankPage :: real state))))
   \<and> map price (cart (addItemToCart ''Hoodie'' 1500
         (addItemToCart ''Hoodie'' 1200 (initialState (blankPage :: real state))))) = [1200]
   \<and> map quantity (cart (addItemToCart ''Hoodie'' 1500
         (addItemToCart ''Hoodie'' 1200 (initialState (blankPage :: real state))))) = [2]
   \<and> addItemToCart ''Hoodie'' 1500 (addItemToCart ''Hoodie'' 1200 (initialState (blankPage :: real state)))
       = addItemToCart ''Hoodie'' 999 (addItemToCart ''Hoodie'' 1200 (initialState (blankPage :: real state)))
   \<and> ''Hoodie'' \<notin> name ` set (cart (initialState (blankPage :: real state)))
   \<and> cart (addItemToCart ''Hoodie'' 1500 (addItemToCart ''Hoodie'' 1200 (initialState (blankPage :: real state))))
       = [\<lparr>name = ''Hoodie'', price = 1200, quantity = 2\<rparr>]"
proof -
  let ?s0 = "initialState (blankPage :: real state)"
  let ?s1 = "addItemToCart ''Hoodie'' 1200 ?s0"
  have c0: "cart ?s0 = []"
    by (simp add: eval_defs)
  have c1: "cart ?s1 = [\<lparr>name = ''Hoodie'', price = 1200, quantity = 1\<rparr>]"
    by (simp add: eval_defs)
  have h1: "''Hoodie'' \<in> name ` set (cart ?s1)" and h0: "''Hoodie'' \<notin> name ` set (cart ?s0)"
    by (simp_all add: c0 c1)
  note present = addItemToCart_discards_new_price [of "''Hoodie''" ?s1 1500 999]
  note absent = addItemToCart_discards_new_price [of "''Hoodie''" ?s0 1200 1500]
  from present h1
  have "map price (cart (addItemToCart ''Hoodie'' 1500 ?s1)) = map price (cart ?s1)"
    and "\<exists>i<length (cart ?s1). map quantity (cart (addItemToCart ''Hoodie'' 1500 ?s1)) =
           (map quantity (cart ?s1))[i := quantity (cart ?s1 ! i) + 1]"
    by blast+
  then have p: "map price (cart (addItemToCart ''Hoodie'' 1500 ?s1)) = [1200]"
    and q: "map quantity (cart (addItemToCart ''Hoodie'' 1500 ?s1)) = [2]"
    by (auto simp add: c1)
  from present h1 have e: "addItemToCart ''Hoodie'' 1500 ?s1 = addItemToCart ''Hoodie'' 999 ?s1"
    by blast
  from absent h0 have t: "cart (addItemToCart ''Hoodie'' 1500 ?s1) =
      [\<lparr>name = ''Hoodie'', price = 1200, quantity = 2\<rparr>]"
    by (simp add: c0)
  show ?thesis
    using h1 h0 p q e t by blast
qed

subsection \<open>Cart controls\<close>

lemma splice_valid:
  "0 \<le> i \<Longrightarrow> i < int (length xs) \<Longrightarrow>
   splice (Num i) 1 xs = take (nat i) xs @ drop (Suc (nat i)) xs"
  by (simp add: splice_def Let_def nat_add_distrib min_def)

lemma modifyAt_valid:
  "0 \<le> i \<Longrightarrow> i < int (length xs) \<Longrightarrow>
   modifyAt g (Num i) xs = Inr (xs[nat i := g (xs ! nat i)])"
  by (simp add: modifyAt_def)

lemma name_removed:
  assumes "distinct (map f xs)" and "k < length xs"
  shows "f (xs ! k) \<notin> f ` set (take k xs @ drop (Suc k) xs)"
proof -
  have "xs = take k xs @ xs ! k # drop (Suc k) xs"
    using assms(2) by (rule id_take_nth_drop)
  then have "map f xs = map f (take k xs) @ f (xs ! k) # map f (drop (Suc k) xs)"
    by (metis list.simps(9) map_append)
  with assms(1) have "distinct (map f (take k xs) @ f (xs ! k) # map f (drop (Suc k) xs))"
    by simp
  then show ?thesis by auto
qed

text \<open>
  C5. For every cart and valid index, a click on the decrease button of that index lowers a
  quantity \<open>N > 1\<close> to \<open>N - 1\<close> and keeps the entry in place; at quantity 1 it removes
  the entry, the other entries keeping their order, and with one entry per name the name is
  gone from the cart.
\<close>

theorem decrease_quantity:
  assumes "0 \<le> i" and "i < int (length (cart s))"
    and "dataIndex target = Num i"
    and "''increase-quantity-btn'' \<notin> set (classList target)"
    and "''decrease-quantity-btn'' \<in> set (classList target)"
  shows "handleCartControlsClick target s = Inr (step (CartControlsClick target) s)
    \<and> (1 < quantity (cart s ! nat i) \<longrightarrow>
           cart (step (CartControlsClick target) s) =
             (cart s)[nat i := (cart s ! nat i)\<lparr>quantity := quantity (cart s ! nat i) - 1\<rparr>]
           \<and> length (cart (step (CartControlsClick target) s)) = length (cart s)
           \<and> name (cart (step (CartControlsClick target) s) ! nat i) = name (cart s ! nat i)
           \<and> quantity (cart (step (CartControlsClick target) s) ! nat i) + 1
               = quantity (cart s ! nat i))
    \<and> (quantity (cart s ! nat i) \<le> 1 \<longrightarrow>
           cart (step (CartControlsClick target) s) =
             take (nat i) (cart s) @ drop (Suc (nat i)) (cart s)
           \<and> length (cart (step (CartControlsClick target) s)) + 1 = length (cart s)
           \<and> (distinct (map name (cart s)) \<longrightarrow>
                name (cart s ! nat i) \<notin> name ` set (cart (step (CartControlsClick target) s))))"
proof -
  have lt: "nat i < length (cart s)"
    using assms(1,2) by simp
  have el: "elementAt (cart s) (Num i) = Some (cart s ! nat i)"
    using assms(1,2) by simp
  have r: "handleCartControlsClick target s =
      Inr (updateCartDisplay
            (s\<lparr>cart := (if 1 < quantity (cart s ! nat i)
                         then (cart s)[nat i := (cart s ! nat i)
                                 \<lparr>quantity := quantity (cart s ! nat i) - 1\<rparr>]
                         else take (nat i) (cart s) @ drop (Suc (nat i)) (cart s))\<rparr>))"
    using assms
    by (simp add: handleCartControlsClick_def Let_def el
          modifyAt_valid [OF assms(1,2)] splice_valid [OF assms(1,2)])
  have ok: "handleCartControlsClick target s = Inr (step (CartControlsClick target) s)"
    by (simp add: r)
  have dec: "1 < quantity (cart s ! nat i) \<longrightarrow>
           cart (step (CartControlsClick target) s) =
             (cart s)[nat i := (cart s ! nat i)\<lparr>quantity := quantity (cart s ! nat i) - 1\<rparr>]
           \<and> length (cart (step (CartControlsClick target) s)) = length (cart s)
           \<and> name (cart (step (CartControlsClick target) s) ! nat i) = name (cart s ! nat i)
           \<and> quantity (cart (step (CartControlsClick target) s) ! nat i) + 1
               = quantity (cart s ! nat i)"
    using lt by (simp add: r)
  have rem: "quantity (cart s ! nat i) \<le> 1 \<longrightarrow>
           cart (step (CartControlsClick target) s) =
             take (nat i) (cart s) @ drop (Suc (nat i)) (cart s)
           \<and> length (cart (step (CartControlsClick target) s)) + 1 = length (cart s)
           \<and> (distinct (map name (cart s)) \<longrightarrow>
                name (cart s ! nat i) \<notin> name ` set (cart (step (CartControlsClick target) s)))"
    using lt name_removed [of name "cart s" "nat i"] by (auto simp add: r)
  from ok dec rem show ?thesis by blast
qed

theorem decrease_quantity_witness:
  "cart (run [AddToCartClick ''Hoodie'' 1200, AddToCartClick ''Hoodie'' 1200,
              AddToCartClick ''Cap'' 300] (initialState (blankPage :: real state)))
     = [\<lparr>name = ''Hoodie'', price = 1200, quantity = 2\<rparr>,
        \<lparr>name = ''Cap'', price = 300, quantity = 1\<rparr>]
   \<and> cart (step (CartControlsClick
                   \<lparr>classList = [''decrease-quantity-btn''], dataIndex = Num 0\<rparr>)
        (run [AddToCartClick ''Hoodie'' 1200, AddToCartClick ''Hoodie'' 1200,
              AddToCartClick ''Cap'' 300] (initialState (blankPage :: real state))))
     = [\<lparr>name = ''Hoodie'', price = 1200, quantity = 1\<rparr>,
        \<lparr>name = ''Cap'', price = 300, quantity = 1\<rparr>]
   \<and> cart (step (CartControlsClick
                   \<lparr>classList = [''decrease-quantity-btn''], dataIndex = Num 1\<rparr>)
        (run [AddToCartClick ''Hoodie'' 1200, AddToCartClick ''Hoodie'' 1200,
              AddToCartClick ''Cap'' 300] (initialState (blankPage :: real state))))
     = [\<lparr>name = ''Hoodie'', price = 1200, quantity = 2\<rparr>]
   \<and> distinct (map name (cart (run [AddToCartClick ''Hoodie'' 1200,
              AddToCartClick ''Hoodie'' 1200, AddToCartClick ''Cap'' 300]
              (initialState (blankPage :: real state)))))
   \<and> ''Cap'' \<notin> name ` set (cart (step (CartControlsClick
                   \<lparr>classList = [''decrease-quantity-btn''], dataIndex = Num 1\<rparr>)
        (run [AddToCartClick ''Hoodie'' 1200, AddToCartClick ''Hoodie'' 1200,
              AddToCartClick ''Cap'' 300] (initialState (blankPage :: real state)))))"
proof -
  let ?s = "run [AddToCartClick ''Hoodie'' 1200, AddToCartClick ''Hoodie'' 1200,
                 AddToCartClick ''Cap'' 300] (initialState (blankPage :: real state))"
  let ?t0 = "\<lparr>classList = [''decrease-quantity-btn''], dataIndex = Num 0\<rparr>"
  let ?t1 = "\<lparr>classList = [''decrease-quantity-btn''], dataIndex = Num 1\<rparr>"
  have c: "cart ?s = [\<lparr>name = ''Hoodie'', price = 1200, quantity = 2\<rparr>,
                      \<lparr>name = ''Cap'', price = 300, quantity = 1\<rparr>]"
    by (simp add: eval_defs)
  have "cart (step (CartControlsClick ?t0) ?s) =
          [\<lparr>name = ''Hoodie'', price = 1200, quantity = 1\<rparr>,
           \<lparr>name = ''Cap'', price = 300, quantity = 1\<rparr>]"
    using decrease_quantity [of 0 ?s ?t0] by (simp add: c)
  moreover have "cart (step (CartControlsClick ?t1) ?s) =
          [\<lparr>name = ''Hoodie'', price = 1200, quantity = 2\<rparr>]"
    using decrease_quantity [of 1 ?s ?t1] by (simp add: c)
  moreover have d: "distinct (map name (cart ?s))"
    by (simp add: c)
  moreover have "''Cap'' \<notin> name ` set (cart (step (CartControlsClick ?t1) ?s))"
    using decrease_quantity [of 1 ?s ?t1] d by (simp add: c)
  ultimately show ?thesis
    using c by simp
qed

subsection \<open>The cart invariant\<close>

lemma cartInv_update:
  assumes "cartInv c" and "name x = name (c ! k)" and "1 \<le> quantity x"
  shows "cartInv (c[k := x])"
proof -
  have "map name (c[k := x]) = map name c"
    using assms(2) by (rule map_update_same)
  moreover have "set (c[k := x]) \<subseteq> insert x (set c)"
    by (rule set_update_subset_insert)
  ultimately show ?thesis
    using assms(1,3) by (auto simp add: cartInv_def list_all_iff)
qed

lemma distinct_take_drop:
  assumes "distinct ys" and "k \<le> m"
  shows "distinct (take k ys @ drop m ys)"
proof -
  have "distinct (take k ys @ drop k ys)"
    using assms(1) by simp
  then have "set (take k ys) \<inter> set (drop k ys) = {}"
    by (simp only: distinct_append)
  moreover have "set (drop m ys) \<subseteq> set (drop k ys)"
    using assms(2) by (rule set_drop_subset_set_drop)
  ultimately have "set (take k ys) \<inter> set (drop m ys) = {}"
    by blast
  then show ?thesis
    using assms(1) by simp
qed

lemma splice_take_drop:
  "\<exists>k m. k \<le> m \<and> splice start d xs = take k xs @ drop m xs"
proof -
  define len where "len = int (length xs)"
  define rel where "rel = (case start of NaN \<Rightarrow> 0 | Num i \<Rightarrow> i)"
  define st where "st = (if rel < 0 then max (len + rel) 0 else min rel len)"
  define dc where "dc = min (max d 0) (len - st)"
  have "0 \<le> len"
    by (simp add: len_def)
  then have "st \<le> len"
    by (simp add: st_def)
  then have "0 \<le> dc"
    by (simp add: dc_def)
  then have "nat st \<le> nat (st + dc)"
    by simp
  moreover have "splice start d xs = take (nat st) xs @ drop (nat (st + dc)) xs"
    by (simp only: splice_def Let_def len_def rel_def st_def dc_def)
  ultimately show ?thesis by blast
qed

lemma cartInv_splice:
  assumes "cartInv c"
  shows "cartInv (splice start d c)"
proof -
  obtain k m where km: "k \<le> m" and sp: "splice start d c = take k c @ drop m c"
    using splice_take_drop by blast
  have "distinct (map name c)"
    using assms by (simp add: cartInv_def)
  then have "distinct (take k (map name c) @ drop m (map name c))"
    using km by (rule distinct_take_drop)
  moreover have "set (take k c @ drop m c) \<subseteq> set c"
    using set_take_subset [of k c] set_drop_subset [of m c] by auto
  ultimately show ?thesis
    using assms by (auto simp add: sp cartInv_def list_all_iff take_map drop_map)
qed

lemma cartInv_addItemToCart:
  assumes "cartInv (cart s)"
  shows "cartInv (cart (addItemToCart nm pr s))"
proof (cases "nm \<in> name ` set (cart s)")
  case True
  then show ?thesis
    using assms by (simp add: cart_add_present cartInv_update)
next
  case False
  then show ?thesis
    using assms by (auto simp add: cart_add_absent cartInv_def)
qed

lemma modifyAt_Inr:
  assumes "modifyAt g index xs = Inr ys"
  obtains k where "k < length xs" and "ys = xs[k := g (xs ! k)]"
proof (cases index)
  case NaN
  with assms show ?thesis by (simp add: modifyAt_def)
next
  case (Num i)
  with assms have "nat i < length xs" and "ys = xs[nat i := g (xs ! nat i)]"
    by (auto simp add: modifyAt_def split: if_splits)
  then show ?thesis by (rule that)
qed

lemma elementAt_Some:
  assumes "elementAt xs index = Some x"
  obtains i where "index = Num i" and "0 \<le> i" and "i < int (length xs)" and "x = xs ! nat i"
  using assms by (cases index) (auto split: if_splits)

lemma controls_increase:
  "''increase-quantity-btn'' \<in> set (classList target) \<Longrightarrow>
   handleCartControlsClick target s =
     (case modifyAt (\<lambda>item. item\<lparr>quantity := quantity item + 1\<rparr>) (dataIndex target) (cart s) of
        Inl e \<Rightarrow> Inl e
      | Inr c \<Rightarrow> Inr (updateCartDisplay (s\<lparr>cart := c\<rparr>)))"
  by (simp add: handleCartControlsClick_def Let_def)

lemma controls_decrease:
  "''increase-quantity-btn'' \<notin> set (classList target) \<Longrightarrow>
   ''decrease-quantity-btn'' \<in> set (classList target) \<Longrightarrow>
   handleCartControlsClick target s =
     (case elementAt (cart s) (dataIndex target) of
        None \<Rightarrow> Inl TypeError
      | Some item \<Rightarrow>
          if quantity item > 1 then
            (case modifyAt (\<lambda>item. item\<lparr>quantity := quantity item - 1\<rparr>)
                    (dataIndex target) (cart s) of
               Inl e \<Rightarrow> Inl e
             | Inr c \<Rightarrow> Inr (updateCartDisplay (s\<lparr>cart := c\<rparr>)))
          else Inr (updateCartDisplay (s\<lparr>cart := splice (dataIndex target) 1 (cart s)\<rparr>)))"
  by (simp add: handleCartControlsClick_def Let_def)

lemma controls_remove:
  "''increase-quantity-btn'' \<notin> set (classList target) \<Longrightarrow>
   ''decrease-quantity-btn'' \<notin> set (classList target) \<Longrightarrow>
   ''remove-item-btn'' \<in> set (classList target) \<Longrightarrow>
   handleCartControlsClick target s =
     Inr (updateCartDisplay (s\<lparr>cart := splice (dataIndex target) 1 (cart s)\<rparr>))"
  by (simp add: handleCartControlsClick_def Let_def)

lemma controls_other:
  "''increase-quantity-btn'' \<notin> set (classList target) \<Longrightarrow>
   ''decrease-quantity-btn'' \<notin> set (classList target) \<Longrightarrow>
   ''remove-item-btn'' \<notin> set (classList target) \<Longrightarrow>
   handleCartControlsClick target s = Inr (updateCartDisplay s)"
  by (simp add: handleCartControlsClick_def Let_def)

lemma cart_handleCartControlsClick:
  assumes "handleCartControlsClick target s = Inr s'"
  shows "(\<exists>k x. name x = name (cart s ! k) \<and> 1 \<le> quantity x \<and> cart s' = (cart s)[k := x])
         \<or> (\<exists>start. cart s' = splice start 1 (cart s))
         \<or> cart s' = cart s"
proof -
  consider (inc) "''increase-quantity-btn'' \<in> set (classList target)"
    | (dec) "''increase-quantity-btn'' \<notin> set (classList target)"
            "''decrease-quantity-btn'' \<in> set (classList target)"
    | (rem) "''increase-quantity-btn'' \<notin> set (classList target)"
            "''decrease-quantity-btn'' \<notin> set (classList target)"
            "''remove-item-btn'' \<in> set (classList target)"
    | (other) "''increase-quantity-btn'' \<notin> set (classList target)"
            "''decrease-quantity-btn'' \<notin> set (classList target)"
            "''remove-item-btn'' \<notin> set (classList target)"
    by blast
  then show ?thesis
  proof cases
    case inc
    let ?g = "\<lambda>item. item\<lparr>quantity := quantity item + 1\<rparr>"
    show ?thesis
    proof (cases "modifyAt ?g (dataIndex target) (cart s)")
      case (Inl e)
      with assms inc show ?thesis by (simp add: controls_increase)
    next
      case (Inr c)
      with assms inc have s': "cart s' = c" by (auto simp add: controls_increase)
      from Inr obtain k where "c = (cart s)[k := ?g (cart s ! k)]"
        by (rule modifyAt_Inr)
      with s' have "name (?g (cart s ! k)) = name (cart s ! k) \<and> 1 \<le> quantity (?g (cart s ! k))
                    \<and> cart s' = (cart s)[k := ?g (cart s ! k)]"
        by simp
      then show ?thesis by blast
    qed
  next
    case dec
    let ?g = "\<lambda>item. item\<lparr>quantity := quantity item - 1\<rparr>"
    show ?thesis
    proof (cases "elementAt (cart s) (dataIndex target)")
      case None
      with assms dec show ?thesis by (simp add: controls_decrease)
    next
      case (Some item)
      then obtain i where ix: "dataIndex target = Num i" "0 \<le> i" "i < int (length (cart s))"
        and item: "item = cart s ! nat i"
        by (rule elementAt_Some)
      show ?thesis
      proof (cases "1 < quantity item")
        case True
        with assms dec Some ix have "cart s' = (cart s)[nat i := ?g (cart s ! nat i)]"
          by (auto simp add: controls_decrease modifyAt_valid)
        with True item have "name (?g (cart s ! nat i)) = name (cart s ! nat i)
            \<and> 1 \<le> quantity (?g (cart s ! nat i))
            \<and> cart s' = (cart s)[nat i := ?g (cart s ! nat i)]"
          by simp
        then show ?thesis by blast
      next
        case False
        with assms dec Some have "cart s' = splice (dataIndex target) 1 (cart s)"
          by (auto simp add: controls_decrease)
        then show ?thesis by blast
      qed
    qed
  next
    case rem
    with assms have "cart s' = splice (dataIndex target) 1 (cart s)"
      by (auto simp add: controls_remove)
    then show ?thesis by blast
  next
    case other
    with assms have "cart s' = cart s"
      by (auto simp add: controls_other)
    then show ?thesis by blast
  qed
qed

lemma cartInv_handleCartControlsClick:
  assumes "cartInv (cart s)" and "handleCartControlsClick target s = Inr s'"
  shows "cartInv (cart s')"
  using cart_handleCartControlsClick [OF assms(2)] assms(1)
  by (auto simp add: cartInv_update cartInv_splice)

lemma cart_trackOrder [simp]: "cart (trackOrder n s) = cart s"
  by (simp add: trackOrder_def Let_def)

lemma cart_runTimer [simp]: "cart (runTimer t s) = cart s"
  by (cases "(t, s)" rule: runTimer.cases) simp_all

lemma cart_handleTrackOrderBtnClick [simp]: "cart (handleTrackOrderBtnClick s) = cart s"
  by (simp add: handleTrackOrderBtnClick_def Let_def)

lemma cart_handleOrderTrackerLinkClick [simp]: "cart (handleOrderTrackerLinkClick s) = cart s"
  by (simp add: handleOrderTrackerLinkClick_def)

lemma cartInv_Nil: "cartInv []"
  by (simp add: cartInv_def)

lemma cartInv_step:
  assumes "cartInv (cart s)"
  shows "cartInv (cart (step e s))"
proof (cases e)
  case (CartControlsClick target)
  then show ?thesis
    using assms cartInv_handleCartControlsClick [OF assms, of target]
    by (cases "handleCartControlsClick target s") simp_all
qed (use assms in \<open>simp_all add: handleAddToCartClick_def handleBuyNowClick_def
       cartInv_addItemToCart cart_checkout cartInv_Nil\<close>)

lemma cartInv_run:
  "cartInv (cart s) \<Longrightarrow> cartInv (cart (run es s))"
  unfolding run_def by (induction es arbitrary: s) (simp_all add: cartInv_step)

lemma cart_initialState: "cart (initialState page) = []"
  by (simp add: initialState_def handleDOMContentLoaded_def)


text \<open>
  C3. Every cart operation (add, increase, decrease, remove, the clearing by checkout, and
  so every event of the page) preserves the invariant that the cart holds at most one line
  item per name and that every line item has quantity at least 1. The invariant holds in
  every state the page reaches from its start, so no reachable cart has an entry with
  quantity 0.
\<close>

theorem cart_invariant_preserved:
  "(cartInv (cart s) \<longrightarrow>
        cartInv (cart (addItemToCart nm pr s))
      \<and> (\<forall>s'. handleCartControlsClick target s = Inr s' \<longrightarrow> cartInv (cart s'))
      \<and> cartInv (cart (handleBuyAllItemsClick now d s))
      \<and> cartInv (cart (step e s)))
   \<and> cartInv (cart (run es (initialState page)))
   \<and> distinct (map name (cart (run es (initialState page))))
   \<and> (\<forall>item\<in>set (cart (run es (initialState page))). 1 \<le> quantity item \<and> quantity item \<noteq> 0)"
proof -
  have reach: "cartInv (cart (run es (initialState page)))"
    by (rule cartInv_run) (simp add: cart_initialState cartInv_Nil)
  have ops: "cartInv (cart s) \<longrightarrow>
        cartInv (cart (addItemToCart nm pr s))
      \<and> (\<forall>s'. handleCartControlsClick target s = Inr s' \<longrightarrow> cartInv (cart s'))
      \<and> cartInv (cart (handleBuyAllItemsClick now d s))
      \<and> cartInv (cart (step e s))"
    using cartInv_handleCartControlsClick [of s target]
    by (simp add: cartInv_addItemToCart cart_checkout cartInv_Nil cartInv_step)
  from reach have "distinct (map name (cart (run es (initialState page))))"
    and "\<forall>item\<in>set (cart (run es (initialState page))). 1 \<le> quantity item \<and> quantity item \<noteq> 0"
    by (auto simp add: cartInv_def list_all_iff)
  with reach ops show ?thesis by blast
qed

theorem cart_invariant_preserved_witness:
  "cartInv (cart (run [AddToCartClick ''Hoodie'' 1200, AddToCartClick ''Hoodie'' 1200,
                       BuyNowClick ''Cap'' 300] (initialState (blankPage :: real state))))
   \<and> cartInv (cart (addItemToCart ''Cap'' 300
        (run [AddToCartClick ''Hoodie'' 1200, AddToCartClick ''Hoodie'' 1200,
              BuyNowClick ''Cap'' 300] (initialState (blankPage :: real state)))))
   \<and> handleCartControlsClick \<lparr>classList = [''decrease-quantity-btn''], dataIndex = Num 1\<rparr>
        (run [AddToCartClick ''Hoodie'' 1200, AddToCartClick ''Hoodie'' 1200,
              BuyNowClick ''Cap'' 300] (initialState (blankPage :: real state)))
       = Inr (step (CartControlsClick
                      \<lparr>classList = [''decrease-quantity-btn''], dataIndex = Num 1\<rparr>)
               (run [AddToCartClick ''Hoodie'' 1200, AddToCartClick ''Hoodie'' 1200,
                     BuyNowClick ''Cap'' 300] (initialState (blankPage :: real state))))
   \<and> cartInv (cart (step (CartControlsClick
                      \<lparr>classList = [''decrease-quantity-btn''], dataIndex = Num 1\<rparr>)
               (run [AddToCartClick ''Hoodie'' 1200, AddToCartClick ''Hoodie'' 1200,
                     BuyNowClick ''Cap'' 300] (initialState (blankPage :: real state)))))
   \<and> cartInv (cart (handleBuyAllItemsClick 1700000123456 ''2/11/2026, 10:15:00 am''
        (run [AddToCartClick ''Hoodie'' 1200, AddToCartClick ''Hoodie'' 1200,
              BuyNowClick ''Cap'' 300] (initialState (blankPage :: real state)))))
   \<and> cart (run [AddToCartClick ''Hoodie'' 1200, AddToCartClick ''Hoodie'' 1200,
                BuyNowClick ''Cap'' 300] (initialState (blankPage :: real state)))
       = [\<lparr>name = ''Hoodie'', price = 1200, quantity = 2\<rparr>,
          \<lparr>name = ''Cap'', price = 300, quantity = 1\<rparr>]
   \<and> quantity \<lparr>name = ''Cap'', price = 300 :: real, quantity = 1\<rparr> \<noteq> 0"
proof -
  let ?es = "[AddToCartClick ''Hoodie'' 1200, AddToCartClick ''Hoodie'' 1200,
              BuyNowClick ''Cap'' 300]"
  let ?s = "run ?es (initialState (blankPage :: real state))"
  let ?t = "\<lparr>classList = [''decrease-quantity-btn''], dataIndex = Num 1\<rparr>"
  let ?cap = "\<lparr>name = ''Cap'', price = 300 :: real, quantity = 1\<rparr>"
  have c: "cart ?s = [\<lparr>name = ''Hoodie'', price = 1200, quantity = 2\<rparr>, ?cap]"
    by (simp add: eval_defs)
  note t = cart_invariant_preserved
    [of ?s "''Cap''" 300 ?t 1700000123456 "''2/11/2026, 10:15:00 am''" "CartControlsClick ?t"
        ?es "blankPage :: real state"]
  from t have inv: "cartInv (cart ?s)"
    by blast
  have ok: "handleCartControlsClick ?t ?s = Inr (step (CartControlsClick ?t) ?s)"
    by (simp add: handleCartControlsClick_def Let_def c)
  have mem: "?cap \<in> set (cart ?s)"
    by (simp add: c)
  from t mem have q: "quantity ?cap \<noteq> 0"
    by blast
  from t inv ok c q show ?thesis
    by blast
qed

subsection \<open>The order id\<close>

lemma slice_neg6: "slice (- 6) str = drop (length str - 6) str"
proof -
  have "nat (max (int (length str) + - 6) 0) = length str - 6"
    by simp
  then show ?thesis
    by (simp add: slice_def Let_def)
qed

lemma digits_snoc: "\<exists>pre. digits m = pre @ [digitChar (m mod 10)]"
proof (cases "m < 10")
  case True
  then show ?thesis by (simp add: digits_small)
next
  case False
  then show ?thesis by (simp add: digits_large)
qed

lemma digits_six:
  assumes "100000 \<le> n"
  shows "\<exists>pre. digits n =
           pre @ [digitChar (n div 100000 mod 10), digitChar (n div 10000 mod 10),
                  digitChar (n div 1000 mod 10), digitChar (n div 100 mod 10),
                  digitChar (n div 10 mod 10), digitChar (n mod 10)]"
proof -
  have d0: "digits n = digits (n div 10) @ [digitChar (n mod 10)]"
    using assms by (simp add: digits_large)
  have "10 \<le> n div 10"
    using assms by simp
  then have d1: "digits (n div 10) = digits (n div 100) @ [digitChar (n div 10 mod 10)]"
    by (simp add: digits_large div_mult2_eq [symmetric])
  have "10 \<le> n div 100"
    using assms by simp
  then have d2: "digits (n div 100) = digits (n div 1000) @ [digitChar (n div 100 mod 10)]"
    by (simp add: digits_large div_mult2_eq [symmetric])
  have "10 \<le> n div 1000"
    using assms by simp
  then have d3: "digits (n div 1000) = digits (n div 10000) @ [digitChar (n div 1000 mod 10)]"
    by (simp add: digits_large div_mult2_eq [symmetric])
  have "10 \<le> n div 10000"
    using assms by simp
  then have d4: "digits (n div 10000) = digits (n div 100000) @ [digitChar (n div 10000 mod 10)]"
    by (simp add: digits_large div_mult2_eq [symmetric])
  obtain pre where d5: "digits (n div 100000) = pre @ [digitChar (n div 100000 mod 10)]"
    using digits_snoc by blast
  show ?thesis
    by (simp add: d0 d1 d2 d3 d4 d5)
qed

lemma last_six_of_append:
  "length suffix = 6 \<Longrightarrow> drop (length (pre @ suffix) - 6) (pre @ suffix) = suffix"
  by simp

lemma slice_numberToString:
  assumes "100000 \<le> \<bar>now\<bar>"
  shows "slice (- 6) (numberToString now) =
           [digitChar (nat \<bar>now\<bar> div 100000 mod 10), digitChar (nat \<bar>now\<bar> div 10000 mod 10),
            digitChar (nat \<bar>now\<bar> div 1000 mod 10), digitChar (nat \<bar>now\<bar> div 100 mod 10),
            digitChar (nat \<bar>now\<bar> div 10 mod 10), digitChar (nat \<bar>now\<bar> mod 10)]"
    (is "_ = ?six")
proof -
  have "100000 \<le> nat \<bar>now\<bar>"
    using assms by simp
  then obtain pre where pre: "digits (nat \<bar>now\<bar>) = pre @ ?six"
    using digits_six by blast
  have len: "length ?six = 6"
    by simp
  show ?thesis
  proof (cases "now < 0")
    case True
    then have "numberToString now = (CHR ''-'' # pre) @ ?six"
      using pre by (simp add: numberToString_def abs_if)
    then show ?thesis
      using last_six_of_append [OF len, of "CHR ''-'' # pre"] by (simp only: slice_neg6)
  next
    case False
    then have "numberToString now = pre @ ?six"
      using pre by (simp add: numberToString_def abs_if)
    then show ?thesis
      using last_six_of_append [OF len, of pre] by (simp only: slice_neg6)
  qed
qed

lemma digit_shift:
  fixes n a m :: nat
  assumes "0 < a"
  shows "(n + a * (10 * m)) div a mod 10 = n div a mod 10"
  using assms by simp

lemma length_numberToString: "length (digits (nat \<bar>now\<bar>)) \<le> length (numberToString now)"
  by (simp add: numberToString_def abs_if)


lemma slice_shift_million:
  assumes "100000 \<le> now"
  shows "slice (- 6) (numberToString (now + 1000000)) = slice (- 6) (numberToString now)"
proof -
  define n where "n = nat now"
  have n: "nat \<bar>now\<bar> = n" and n': "nat \<bar>now + 1000000\<bar> = n + 1000000"
    using assms by (simp_all add: n_def)
  have e5: "(n + 1000000) div 100000 mod 10 = n div 100000 mod 10"
    using digit_shift [of 100000 n 1] by simp
  have e4: "(n + 1000000) div 10000 mod 10 = n div 10000 mod 10"
    using digit_shift [of 10000 n 10] by simp
  have e3: "(n + 1000000) div 1000 mod 10 = n div 1000 mod 10"
    using digit_shift [of 1000 n 100] by simp
  have e2: "(n + 1000000) div 100 mod 10 = n div 100 mod 10"
    using digit_shift [of 100 n 1000] by simp
  have e1: "(n + 1000000) div 10 mod 10 = n div 10 mod 10"
    using digit_shift [of 10 n 10000] by simp
  have e0: "(n + 1000000) mod 10 = n mod 10"
    using digit_shift [of 1 n 100000] by simp
  have "100000 \<le> \<bar>now\<bar>" and "100000 \<le> \<bar>now + 1000000\<bar>"
    using assms by simp_all
  then show ?thesis
    by (simp only: slice_numberToString n n' e0 e1 e2 e3 e4 e5)
qed

lemma orderId_checkout:
  "cart s \<noteq> [] \<Longrightarrow>
   orderId (last (orders (handleBuyAllItemsClick now d s))) = slice (- 6) (numberToString now)"
  by (simp add: orders_checkout)

lemma message_checkout:
  "cart s \<noteq> [] \<Longrightarrow>
   orderConfirmationMessage (handleBuyAllItemsClick now d s) = slice (- 6) (numberToString now)"
  by (simp add: handleBuyAllItemsClick_def showOrderConfirmation_def updateCartDisplay_def Let_def)

text \<open>
  C7. The order id generated by a checkout on a non-empty cart is the decimal
  representation of the current timestamp cut down to its final 6 characters. It has 6
  characters whenever the timestamp has at least 6 digits, and from 100000 on it consists
  of the last 6 digits of the timestamp. Ids are not unique: two timestamps a million
  milliseconds apart give the same id.
\<close>

theorem order_id_last_six_digits:
  "(cart s \<noteq> [] \<longrightarrow>
      orderId (last (orders (handleBuyAllItemsClick now d s))) = slice (- 6) (numberToString now)
      \<and> orderConfirmationMessage (handleBuyAllItemsClick now d s)
          = slice (- 6) (numberToString now))
   \<and> slice (- 6) (numberToString now)
       = drop (length (numberToString now) - 6) (numberToString now)
   \<and> (6 \<le> length (digits (nat \<bar>now\<bar>)) \<longrightarrow> length (slice (- 6) (numberToString now)) = 6)
   \<and> (100000 \<le> \<bar>now\<bar> \<longrightarrow>
        6 \<le> length (digits (nat \<bar>now\<bar>))
        \<and> slice (- 6) (numberToString now) =
            [digitChar (nat \<bar>now\<bar> div 100000 mod 10), digitChar (nat \<bar>now\<bar> div 10000 mod 10),
             digitChar (nat \<bar>now\<bar> div 1000 mod 10), digitChar (nat \<bar>now\<bar> div 100 mod 10),
             digitChar (nat \<bar>now\<bar> div 10 mod 10), digitChar (nat \<bar>now\<bar> mod 10)])
   \<and> (100000 \<le> now \<longrightarrow>
        slice (- 6) (numberToString (now + 1000000)) = slice (- 6) (numberToString now))"
proof (intro conjI impI)
  assume "cart s \<noteq> []"
  then show "orderId (last (orders (handleBuyAllItemsClick now d s)))
               = slice (- 6) (numberToString now)"
    by (rule orderId_checkout)
  from \<open>cart s \<noteq> []\<close>
  show "orderConfirmationMessage (handleBuyAllItemsClick now d s)
          = slice (- 6) (numberToString now)"
    by (rule message_checkout)
next
  show "slice (- 6) (numberToString now)
          = drop (length (numberToString now) - 6) (numberToString now)"
    by (rule slice_neg6)
next
  assume "6 \<le> length (digits (nat \<bar>now\<bar>))"
  then have "6 \<le> length (numberToString now)"
    using length_numberToString [of now] by simp
  then show "length (slice (- 6) (numberToString now)) = 6"
    by (simp add: slice_neg6)
next
  assume big: "100000 \<le> \<bar>now\<bar>"
  then have "100000 \<le> nat \<bar>now\<bar>" by simp
  then obtain pre where "digits (nat \<bar>now\<bar>) =
      pre @ [digitChar (nat \<bar>now\<bar> div 100000 mod 10), digitChar (nat \<bar>now\<bar> div 10000 mod 10),
             digitChar (nat \<bar>now\<bar> div 1000 mod 10), digitChar (nat \<bar>now\<bar> div 100 mod 10),
             digitChar (nat \<bar>now\<bar> div 10 mod 10), digitChar (nat \<bar>now\<bar> mod 10)]"
    using digits_six by blast
  then show "6 \<le> length (digits (nat \<bar>now\<bar>))"
    by simp
  from big show "slice (- 6) (numberToString now) =
            [digitChar (nat \<bar>now\<bar> div 100000 mod 10), digitChar (nat \<bar>now\<bar> div 10000 mod 10),
             digitChar (nat \<bar>now\<bar> div 1000 mod 10), digitChar (nat \<bar>now\<bar> div 100 mod 10),
             digitChar (nat \<bar>now\<bar> div 10 mod 10), digitChar (nat \<bar>now\<bar> mod 10)]"
    by (rule slice_numberToString)
next
  assume "100000 \<le> now"
  then show "slice (- 6) (numberToString (now + 1000000)) = slice (- 6) (numberToString now)"
    by (rule slice_shift_million)
qed

theorem order_id_last_six_digits_witness:
  "cart (addItemToCart ''Hoodie'' 1200 (initialState (blankPage :: real state))) \<noteq> []
   \<and> (100000::int) \<le> \<bar>1700000123456\<bar>
   \<and> 6 \<le> length (digits (nat \<bar>1700000123456\<bar>))
   \<and> numberToString 1700000123456 = ''1700000123456''
   \<and> orderId (last (orders (handleBuyAllItemsClick 1700000123456 ''2/11/2026, 10:15:00 am''
         (addItemToCart ''Hoodie'' 1200 (initialState (blankPage :: real state)))))) = ''123456''
   \<and> orderConfirmationMessage (handleBuyAllItemsClick 1700000123456 ''2/11/2026, 10:15:00 am''
         (addItemToCart ''Hoodie'' 1200 (initialState (blankPage :: real state)))) = ''123456''
   \<and> length (slice (- 6) (numberToString 1700000123456)) = 6
   \<and> slice (- 6) (numberToString (1700000123456 + 1000000)) = ''123456''"
proof -
  let ?s = "addItemToCart ''Hoodie'' 1200 (initialState (blankPage :: real state))"
  let ?now = "1700000123456 :: int"
  have ne: "cart ?s \<noteq> []"
    by (simp add: eval_defs)
  have big: "100000 \<le> \<bar>?now\<bar>" "100000 \<le> ?now"
    by simp_all
  have str: "numberToString ?now = ''1700000123456''"
    by (simp add: eval_defs)
  note t = order_id_last_six_digits [of ?s ?now "''2/11/2026, 10:15:00 am''"]
  from t big have six: "6 \<le> length (digits (nat \<bar>?now\<bar>))"
    by blast
  have sl: "slice (- 6) (numberToString ?now) = ''123456''"
    by (simp add: str slice_def)
  from t ne have
    "orderId (last (orders (handleBuyAllItemsClick ?now ''2/11/2026, 10:15:00 am'' ?s)))
       = slice (- 6) (numberToString ?now)"
    "orderConfirmationMessage (handleBuyAllItemsClick ?now ''2/11/2026, 10:15:00 am'' ?s)
       = slice (- 6) (numberToString ?now)"
    by blast+
  then have oid:
    "orderId (last (orders (handleBuyAllItemsClick ?now ''2/11/2026, 10:15:00 am'' ?s))) = ''123456''"
    "orderConfirmationMessage (handleBuyAllItemsClick ?now ''2/11/2026, 10:15:00 am'' ?s) = ''123456''"
    by (simp_all only: sl)
  from t six have len: "length (slice (- 6) (numberToString ?now)) = 6"
    by blast
  from t big have
    "slice (- 6) (numberToString (?now + 1000000)) = slice (- 6) (numberToString ?now)"
    by blast
  then have col: "slice (- 6) (numberToString (?now + 1000000)) = ''123456''"
    by (simp only: sl)
  from ne big six str oid len col show ?thesis
    by blast
qed

subsection \<open>Order lookup\<close>

lemma find_first_None_iff: "find_first P xs = None \<longleftrightarrow> (\<forall>x\<in>set xs. \<not> P x)"
  by (induction xs) simp_all

lemma find_first_eq:
  "find_first P xs =
     (if \<exists>x\<in>set xs. P x then Some (xs ! length (takeWhile (\<lambda>x. \<not> P x) xs)) else None)"
  by (induction xs) auto

lemma find_first_append:
  "find_first P (xs @ ys) =
     (case find_first P xs of None \<Rightarrow> find_first P ys | Some x \<Rightarrow> Some x)"
  by (induction xs) simp_all

lemma find_first_Some_iff:
  "find_first P xs = Some y \<longleftrightarrow>
     (\<exists>i<length xs. xs ! i = y \<and> P y \<and> (\<forall>j<i. \<not> P (xs ! j)))"
proof
  assume found: "find_first P xs = Some y"
  let ?i = "length (takeWhile (\<lambda>x. \<not> P x) xs)"
  from found have ex: "\<exists>x\<in>set xs. P x"
    by (auto simp add: find_first_eq split: if_splits)
  with found have y: "xs ! ?i = y"
    by (simp add: find_first_eq)
  have "?i < length xs" and "P (xs ! ?i)"
    using first_match_lt [OF ex] first_match_holds [OF ex] by simp_all
  moreover have "\<forall>j<?i. \<not> P (xs ! j)"
    using first_match_least [of _ P xs] by simp
  ultimately show "\<exists>i<length xs. xs ! i = y \<and> P y \<and> (\<forall>j<i. \<not> P (xs ! j))"
    using y by blast
next
  assume "\<exists>i<length xs. xs ! i = y \<and> P y \<and> (\<forall>j<i. \<not> P (xs ! j))"
  then obtain i where i: "i < length xs" "xs ! i = y" "P y" "\<forall>j<i. \<not> P (xs ! j)"
    by blast
  let ?k = "length (takeWhile (\<lambda>x. \<not> P x) xs)"
  from i(1-3) have ex: "\<exists>x\<in>set xs. P x"
    using nth_mem by blast
  have "\<not> ?k < i"
    using i(4) first_match_holds [OF ex] by blast
  moreover have "\<not> i < ?k"
    using first_match_least [of i P xs] i(2,3) by blast
  ultimately have "?k = i" by simp
  with ex i(2) show "find_first P xs = Some y"
    by (simp add: find_first_eq)
qed

lemma findOrder_fresh:
  assumes "oid \<notin> orderId ` set os" and "orderId ord = oid"
  shows "findOrder oid (os @ [ord]) = Some ord"
proof -
  from assms(1) have "find_first (\<lambda>order. orderId order = oid) os = None"
    by (auto simp add: find_first_None_iff)
  then show ?thesis
    using assms(2) by (simp add: findOrder_def find_first_append)
qed

lemma findOrder_None: "findOrder q os = None \<longleftrightarrow> q \<notin> orderId ` set os"
  by (auto simp add: findOrder_def find_first_None_iff)

lemma findOrder_shadowed:
  assumes "oid \<in> orderId ` set os"
  shows "findOrder oid (os @ rest) = findOrder oid os"
proof -
  from assms have "find_first (\<lambda>order. orderId order = oid) os \<noteq> None"
    by (auto simp add: find_first_None_iff)
  then show ?thesis
    by (auto simp add: findOrder_def find_first_append)
qed

lemma timers_trackOrder:
  "timers (trackOrder q s) = timers s @ [TrackResultTimer (findOrder q (orders s)) q]"
  by (simp add: trackOrder_def Let_def)

lemma orders_trackOrder [simp]: "orders (trackOrder q s) = orders s"
  by (simp add: trackOrder_def Let_def)

text \<open>
  C6, as amended. When no order already in the store carries the id that a checkout on a
  non-empty cart generates, looking up the id returned by that checkout yields the order
  just created, verbatim: its items are the cart, its total the sum of price times quantity,
  its date the captured one; the tracker schedules and later displays exactly that record.
  Looking up an id that no stored order carries yields the "not found" result, as a value.
\<close>

theorem lookup_after_checkout:
  "(cart s \<noteq> [] \<and> slice (- 6) (numberToString now) \<notin> orderId ` set (orders s) \<longrightarrow>
      orderConfirmationMessage (handleBuyAllItemsClick now d s) = slice (- 6) (numberToString now)
      \<and> last (orders (handleBuyAllItemsClick now d s)) =
           \<lparr>orderId = slice (- 6) (numberToString now), items = cart s,
            orderTotal = sumOfPriceTimesQuantity (cart s), date = d\<rparr>
      \<and> findOrder (slice (- 6) (numberToString now)) (orders (handleBuyAllItemsClick now d s))
           = Some (last (orders (handleBuyAllItemsClick now d s)))
      \<and> timers (trackOrder (slice (- 6) (numberToString now)) (handleBuyAllItemsClick now d s))
           = timers (handleBuyAllItemsClick now d s) @
               [TrackResultTimer (Some (last (orders (handleBuyAllItemsClick now d s))))
                  (slice (- 6) (numberToString now))])
   \<and> (q \<notin> orderId ` set (orders st) \<longrightarrow>
        findOrder q (orders st) = None
        \<and> timers (trackOrder q st) = timers st @ [TrackResultTimer None q])
   \<and> orderStatusText (runTimer (TrackResultTimer (Some ord) q) st) = OrderDetails ord
   \<and> orderStatusText (runTimer (TrackResultTimer None q) st) = OrderNotFound q"
proof (intro conjI impI)
  assume a: "cart s \<noteq> [] \<and> slice (- 6) (numberToString now) \<notin> orderId ` set (orders s)"
  let ?oid = "slice (- 6) (numberToString now)"
  let ?s' = "handleBuyAllItemsClick now d s"
  let ?new = "\<lparr>orderId = ?oid, items = cart s,
               orderTotal = sumOfPriceTimesQuantity (cart s), date = d\<rparr>"
  from a have os: "orders ?s' = orders s @ [?new]"
    by (simp add: orders_checkout)
  from a show "orderConfirmationMessage ?s' = ?oid"
    by (simp add: message_checkout)
  show l: "last (orders ?s') = ?new"
    by (simp add: os)
  from a have "findOrder ?oid (orders s @ [?new]) = Some ?new"
    by (intro findOrder_fresh) simp_all
  then show f: "findOrder ?oid (orders ?s') = Some (last (orders ?s'))"
    by (simp only: os last_snoc)
  show "timers (trackOrder ?oid ?s') =
          timers ?s' @ [TrackResultTimer (Some (last (orders ?s'))) ?oid]"
    by (simp only: timers_trackOrder f)
next
  assume "q \<notin> orderId ` set (orders st)"
  then show n: "findOrder q (orders st) = None"
    by (simp add: findOrder_None)
  then show "timers (trackOrder q st) = timers st @ [TrackResultTimer None q]"
    by (simp only: timers_trackOrder)
qed simp_all


lemmas track_defs = handleTrackOrderBtnClick_def trackOrder_def findOrder_def trim_def
  isWhiteSpace_def handleOrderTrackerLinkClick_def

text \<open>
  Without the freshness condition the statement fails: two checkouts whose timestamps lie
  1000 seconds apart get the same id, and looking up the id shown for the second order
  resolves to the first order.
\<close>

theorem lookup_after_checkout_counterexample:
  "orders (run [AddToCartClick ''Hoodie'' 1200, BuyAllItemsClick 1700000123456 ''2/11/2026, 10:15:00 am'',
               AddToCartClick ''Cap'' 300, BuyAllItemsClick 1700001123456 ''2/11/2026, 10:31:40 am'']
          (initialState (blankPage :: real state))) =
       [\<lparr>orderId = ''123456'', items = [\<lparr>name = ''Hoodie'', price = 1200, quantity = 1\<rparr>],
            orderTotal = 1200, date = ''2/11/2026, 10:15:00 am''\<rparr>,
        \<lparr>orderId = ''123456'', items = [\<lparr>name = ''Cap'', price = 300, quantity = 1\<rparr>],
            orderTotal = 300, date = ''2/11/2026, 10:31:40 am''\<rparr>]
   \<and> orderConfirmationMessage (run [AddToCartClick ''Hoodie'' 1200, BuyAllItemsClick 1700000123456 ''2/11/2026, 10:15:00 am'',
               AddToCartClick ''Cap'' 300, BuyAllItemsClick 1700001123456 ''2/11/2026, 10:31:40 am'']
          (initialState (blankPage :: real state))) = ''123456''
   \<and> findOrder (orderConfirmationMessage (run [AddToCartClick ''Hoodie'' 1200, BuyAllItemsClick 1700000123456 ''2/11/2026, 10:15:00 am'',
               AddToCartClick ''Cap'' 300, BuyAllItemsClick 1700001123456 ''2/11/2026, 10:31:40 am'']
          (initialState (blankPage :: real state)))) (orders (run [AddToCartClick ''Hoodie'' 1200, BuyAllItemsClick 1700000123456 ''2/11/2026, 10:15:00 am'',
               AddToCartClick ''Cap'' 300, BuyAllItemsClick 1700001123456 ''2/11/2026, 10:31:40 am'']
          (initialState (blankPage :: real state)))) \<noteq> Some (last (orders (run [AddToCartClick ''Hoodie'' 1200, BuyAllItemsClick 1700000123456 ''2/11/2026, 10:15:00 am'',
               AddToCartClick ''Cap'' 300, BuyAllItemsClick 1700001123456 ''2/11/2026, 10:31:40 am'']
          (initialState (blankPage :: real state)))))
   \<and> orderStatusText (run [AddToCartClick ''Hoodie'' 1200, BuyAllItemsClick 1700000123456 ''2/11/2026, 10:15:00 am'',
               AddToCartClick ''Cap'' 300, BuyAllItemsClick 1700001123456 ''2/11/2026, 10:31:40 am'',
               UserTypesOrderNumber ''123456'', TrackOrderBtnClick, TimerFires 2]
          (initialState (blankPage :: real state))) = OrderDetails
           \<lparr>orderId = ''123456'', items = [\<lparr>name = ''Hoodie'', price = 1200, quantity = 1\<rparr>],
            orderTotal = 1200, date = ''2/11/2026, 10:15:00 am''\<rparr>"
proof -
  have os: "orders (run [AddToCartClick ''Hoodie'' 1200, BuyAllItemsClick 1700000123456 ''2/11/2026, 10:15:00 am'',
               AddToCartClick ''Cap'' 300, BuyAllItemsClick 1700001123456 ''2/11/2026, 10:31:40 am'']
          (initialState (blankPage :: real state))) =
       [\<lparr>orderId = ''123456'', items = [\<lparr>name = ''Hoodie'', price = 1200, quantity = 1\<rparr>],
            orderTotal = 1200, date = ''2/11/2026, 10:15:00 am''\<rparr>,
        \<lparr>orderId = ''123456'', items = [\<lparr>name = ''Cap'', price = 300, quantity = 1\<rparr>],
            orderTotal = 300, date = ''2/11/2026, 10:31:40 am''\<rparr>]"
    by (simp add: eval_defs)
  have msg: "orderConfirmationMessage (run [AddToCartClick ''Hoodie'' 1200, BuyAllItemsClick 1700000123456 ''2/11/2026, 10:15:00 am'',
               AddToCartClick ''Cap'' 300, BuyAllItemsClick 1700001123456 ''2/11/2026, 10:31:40 am'']
          (initialState (blankPage :: real state))) = ''123456''"
    by (simp add: eval_defs)
  have ne: "findOrder (orderConfirmationMessage (run [AddToCartClick ''Hoodie'' 1200, BuyAllItemsClick 1700000123456 ''2/11/2026, 10:15:00 am'',
               AddToCartClick ''Cap'' 300, BuyAllItemsClick 1700001123456 ''2/11/2026, 10:31:40 am'']
          (initialState (blankPage :: real state)))) (orders (run [AddToCartClick ''Hoodie'' 1200, BuyAllItemsClick 1700000123456 ''2/11/2026, 10:15:00 am'',
               AddToCartClick ''Cap'' 300, BuyAllItemsClick 1700001123456 ''2/11/2026, 10:31:40 am'']
          (initialState (blankPage :: real state)))) \<noteq> Some (last (orders (run [AddToCartClick ''Hoodie'' 1200, BuyAllItemsClick 1700000123456 ''2/11/2026, 10:15:00 am'',
               AddToCartClick ''Cap'' 300, BuyAllItemsClick 1700001123456 ''2/11/2026, 10:31:40 am'']
          (initialState (blankPage :: real state)))))"
    by (simp add: os msg findOrder_def)
  have shown: "orderStatusText (run [AddToCartClick ''Hoodie'' 1200, BuyAllItemsClick 1700000123456 ''2/11/2026, 10:15:00 am'',
               AddToCartClick ''Cap'' 300, BuyAllItemsClick 1700001123456 ''2/11/2026, 10:31:40 am'',
               UserTypesOrderNumber ''123456'', TrackOrderBtnClick, TimerFires 2]
          (initialState (blankPage :: real state))) = OrderDetails
           \<lparr>orderId = ''123456'', items = [\<lparr>name = ''Hoodie'', price = 1200, quantity = 1\<rparr>],
            orderTotal = 1200, date = ''2/11/2026, 10:15:00 am''\<rparr>"
    by (simp add: eval_defs track_defs)
  from os msg ne shown show ?thesis
    by blast
qed

theorem lookup_after_checkout_witness:
  "cart (addItemToCart ''Hoodie'' 1200 (initialState (blankPage :: real state))) \<noteq> []
   \<and> slice (- 6) (numberToString 1700000123456)
       \<notin> orderId ` set (orders (addItemToCart ''Hoodie'' 1200 (initialState (blankPage :: real state))))
   \<and> findOrder ''123456''
        (orders (handleBuyAllItemsClick 1700000123456 ''2/11/2026, 10:15:00 am''
                   (addItemToCart ''Hoodie'' 1200 (initialState (blankPage :: real state)))))
       = Some \<lparr>orderId = ''123456'', items = [\<lparr>name = ''Hoodie'', price = 1200, quantity = 1\<rparr>],
            orderTotal = 1200, date = ''2/11/2026, 10:15:00 am''\<rparr>
   \<and> ''000000'' \<notin> orderId ` set
         (orders (handleBuyAllItemsClick 1700000123456 ''2/11/2026, 10:15:00 am''
                    (addItemToCart ''Hoodie'' 1200 (initialState (blankPage :: real state)))))
   \<and> findOrder ''000000''
        (orders (handleBuyAllItemsClick 1700000123456 ''2/11/2026, 10:15:00 am''
                   (addItemToCart ''Hoodie'' 1200 (initialState (blankPage :: real state)))))
       = None"
proof -
  let ?s = "addItemToCart ''Hoodie'' 1200 (initialState (blankPage :: real state))"
  let ?d = "''2/11/2026, 10:15:00 am''"
  let ?s' = "handleBuyAllItemsClick 1700000123456 ?d ?s"
  have c: "cart ?s = [\<lparr>name = ''Hoodie'', price = 1200, quantity = 1\<rparr>]"
    and o: "orders ?s = []"
    by (simp_all add: eval_defs)
  have sl: "slice (- 6) (numberToString 1700000123456) = ''123456''"
    by (simp add: eval_defs)
  have h1: "cart ?s \<noteq> []"
    and h2: "slice (- 6) (numberToString 1700000123456) \<notin> orderId ` set (orders ?s)"
    by (simp_all add: c o)
  have os': "orders ?s' = [\<lparr>orderId = ''123456'', items = [\<lparr>name = ''Hoodie'', price = 1200, quantity = 1\<rparr>],
            orderTotal = 1200, date = ''2/11/2026, 10:15:00 am''\<rparr>]"
    by (simp add: orders_checkout h1 c o sl sumOfPriceTimesQuantity_def numberOfCount_of_nat)
  have h3: "''000000'' \<notin> orderId ` set (orders ?s')"
    by (simp add: os')
  note found = lookup_after_checkout [of ?s 1700000123456 ?d "''000000''" ?s']
  from found h1 h2 have
    "findOrder (slice (- 6) (numberToString 1700000123456)) (orders ?s') = Some (last (orders ?s'))"
    by blast
  then have r1: "findOrder ''123456'' (orders ?s') = Some \<lparr>orderId = ''123456'', items = [\<lparr>name = ''Hoodie'', price = 1200, quantity = 1\<rparr>],
            orderTotal = 1200, date = ''2/11/2026, 10:15:00 am''\<rparr>"
    by (simp add: sl os')
  from found h3 have r2: "findOrder ''000000'' (orders ?s') = None"
    by blast
  from h1 h2 h3 r1 r2 show ?thesis
    by blast
qed

lemma findOrder_Some_iff:
  "findOrder q os = Some ord \<longleftrightarrow>
     (\<exists>i<length os. os ! i = ord \<and> orderId ord = q \<and> (\<forall>j<i. orderId (os ! j) \<noteq> q))"
  unfolding findOrder_def by (rule find_first_Some_iff)

lemma colliding_checkouts:
  fixes now2 :: int and d2 :: string
  assumes ne: "cart s \<noteq> []" and ne1: "cart s1 \<noteq> []"
    and os1: "orders s1 = orders (handleBuyAllItemsClick now1 d1 s)"
    and same: "slice (- 6) (numberToString now2) = slice (- 6) (numberToString now1)"
  defines "oid \<equiv> slice (- 6) (numberToString now1)"
    and "os2 \<equiv> orders (handleBuyAllItemsClick now2 d2 s1)"
    and "n \<equiv> length (orders s)"
  shows "length os2 = n + 2"
    and "orderId (os2 ! n) = oid" and "orderId (os2 ! (n + 1)) = oid"
    and "items (os2 ! n) = cart s" and "items (os2 ! (n + 1)) = cart s1"
    and "date (os2 ! n) = d1" and "date (os2 ! (n + 1)) = d2"
    and "findOrder oid os2 = findOrder oid (orders (handleBuyAllItemsClick now1 d1 s))"
    and "\<exists>i\<le>n. findOrder oid os2 = Some (os2 ! i)"
    and "oid \<notin> orderId ` set (orders s) \<longrightarrow> findOrder oid os2 = Some (os2 ! n)"
    and "\<forall>q. \<not> (orderId (os2 ! (n + 1)) = q \<and> (\<forall>j<n + 1. orderId (os2 ! j) \<noteq> q))"
proof -
  let ?o1 = "\<lparr>orderId = oid, items = cart s,
              orderTotal = sumOfPriceTimesQuantity (cart s), date = d1\<rparr>"
  let ?o2 = "\<lparr>orderId = oid, items = cart s1,
              orderTotal = sumOfPriceTimesQuantity (cart s1), date = d2\<rparr>"
  have o1: "orders (handleBuyAllItemsClick now1 d1 s) = orders s @ [?o1]"
    using ne by (simp add: orders_checkout oid_def)
  have o2: "os2 = orders s @ [?o1, ?o2]"
    using ne1 by (simp add: os2_def orders_checkout os1 o1 same oid_def)
  show len: "length os2 = n + 2"
    by (simp add: o2 n_def)
  have at_n: "os2 ! n = ?o1" and at_n1: "os2 ! (n + 1) = ?o2"
    by (simp_all add: o2 n_def nth_append)
  show id_n: "orderId (os2 ! n) = oid" and id_n1: "orderId (os2 ! (n + 1)) = oid"
    and "items (os2 ! n) = cart s" and "items (os2 ! (n + 1)) = cart s1"
    and "date (os2 ! n) = d1" and "date (os2 ! (n + 1)) = d2"
    using at_n at_n1 by simp_all
  have "oid \<in> orderId ` set (orders s @ [?o1])"
    by simp
  then have "findOrder oid ((orders s @ [?o1]) @ [?o2]) = findOrder oid (orders s @ [?o1])"
    by (rule findOrder_shadowed)
  then show same_result:
    "findOrder oid os2 = findOrder oid (orders (handleBuyAllItemsClick now1 d1 s))"
    by (simp add: o1 o2)
  show fresh: "oid \<notin> orderId ` set (orders s) \<longrightarrow> findOrder oid os2 = Some (os2 ! n)"
  proof
    assume "oid \<notin> orderId ` set (orders s)"
    then have "findOrder oid (orders s @ [?o1]) = Some ?o1"
      by (rule findOrder_fresh) simp
    then show "findOrder oid os2 = Some (os2 ! n)"
      by (simp only: same_result o1 at_n)
  qed
  show "\<exists>i\<le>n. findOrder oid os2 = Some (os2 ! i)"
  proof -
    have "findOrder oid os2 \<noteq> None"
      by (simp add: findOrder_None o2)
    then obtain ord where f: "findOrder oid os2 = Some ord"
      by blast
    then obtain i where i: "i < length os2" "os2 ! i = ord" "\<forall>j<i. orderId (os2 ! j) \<noteq> oid"
      unfolding findOrder_Some_iff by blast
    from i(3) id_n have "\<not> n < i"
      by blast
    then have "i \<le> n" by simp
    with f i(2) show ?thesis by blast
  qed
  show "\<forall>q. \<not> (orderId (os2 ! (n + 1)) = q \<and> (\<forall>j<n + 1. orderId (os2 ! j) \<noteq> q))"
    using id_n id_n1 by (metis less_add_one)
qed

lemma trackOrder_first_match:
  assumes "i < length (orders st)" and "orderId (orders st ! i) = q"
    and "\<forall>j<i. orderId (orders st ! j) \<noteq> q"
  shows "timers (trackOrder q st) = timers st @ [TrackResultTimer (Some (orders st ! i)) q]"
proof -
  from assms have "findOrder q (orders st) = Some (orders st ! i)"
    unfolding findOrder_Some_iff by blast
  then show ?thesis
    by (simp only: timers_trackOrder)
qed

lemma trackOrder_no_match:
  assumes "q \<notin> orderId ` set (orders st)"
  shows "timers (trackOrder q st) = timers st @ [TrackResultTimer None q]"
proof -
  from assms have "findOrder q (orders st) = None"
    by (simp add: findOrder_None)
  then show ?thesis
    by (simp only: timers_trackOrder)
qed

lemma trackOrder_pending:
  "orderStatusText (trackOrder q st) = TrackingYourOrder"
  by (simp add: trackOrder_def Let_def)

lemma runTimer_shows:
  "orderStatusText (runTimer (TrackResultTimer r q) st) =
     (case r of Some ord \<Rightarrow> OrderDetails ord | None \<Rightarrow> OrderNotFound q)"
  by (cases r) simp_all

text \<open>
  C10, as amended. Order lookup, as \<^verbatim>\<open>trackOrder\<close> performs it, schedules the display of
  the earliest order of the store (first in append order) whose id equals the queried id,
  and of "not found" when no order carries it. Hence, when two checkouts generate the same
  id, a lookup of that id resolves to the earliest stored order with that id, at a position
  not behind the older of the two: it gives what it gave before the second checkout, it is
  the older order when no order stored before carries the id, and for no query is the newer
  order the first match.
\<close>

theorem lookup_returns_earliest:
  "timers (trackOrder q st) = timers st @ [TrackResultTimer (findOrder q (orders st)) q]
   \<and> orderStatusText (runTimer (TrackResultTimer (findOrder q (orders st)) q) st') =
       (case findOrder q (orders st) of Some ord \<Rightarrow> OrderDetails ord | None \<Rightarrow> OrderNotFound q)
   \<and> (i < length (orders st) \<and> orderId (orders st ! i) = q
        \<and> (\<forall>j<i. orderId (orders st ! j) \<noteq> q) \<longrightarrow>
        timers (trackOrder q st) = timers st @ [TrackResultTimer (Some (orders st ! i)) q])
   \<and> (q \<notin> orderId ` set (orders st) \<longrightarrow>
        timers (trackOrder q st) = timers st @ [TrackResultTimer None q])
   \<and> (findOrder q os = Some ord \<longleftrightarrow>
        (\<exists>i<length os. os ! i = ord \<and> orderId ord = q \<and> (\<forall>j<i. orderId (os ! j) \<noteq> q)))
   \<and> (findOrder q os = None \<longleftrightarrow> q \<notin> orderId ` set os)
   \<and> (cart s \<noteq> [] \<and> cart s1 \<noteq> []
        \<and> orders s1 = orders (handleBuyAllItemsClick now1 d1 s)
        \<and> slice (- 6) (numberToString now2) = slice (- 6) (numberToString now1) \<longrightarrow>
        (let oid = slice (- 6) (numberToString now1);
             s2 = handleBuyAllItemsClick now2 d2 s1;
             os2 = orders s2;
             n = length (orders s)
         in length os2 = n + 2
            \<and> orderId (os2 ! n) = oid \<and> items (os2 ! n) = cart s \<and> date (os2 ! n) = d1
            \<and> orderId (os2 ! (n + 1)) = oid \<and> items (os2 ! (n + 1)) = cart s1
            \<and> date (os2 ! (n + 1)) = d2
            \<and> timers (trackOrder oid s2) =
                timers s2 @ [TrackResultTimer
                               (findOrder oid (orders (handleBuyAllItemsClick now1 d1 s))) oid]
            \<and> (\<exists>i\<le>n. timers (trackOrder oid s2) =
                         timers s2 @ [TrackResultTimer (Some (os2 ! i)) oid]
                       \<and> orderId (os2 ! i) = oid \<and> (\<forall>j<i. orderId (os2 ! j) \<noteq> oid))
            \<and> (oid \<notin> orderId ` set (orders s) \<longrightarrow>
                 timers (trackOrder oid s2) =
                   timers s2 @ [TrackResultTimer (Some (os2 ! n)) oid])
            \<and> (\<forall>q'. \<not> (orderId (os2 ! (n + 1)) = q'
                        \<and> (\<forall>j<n + 1. orderId (os2 ! j) \<noteq> q')))))"
proof (intro conjI impI)
  show "timers (trackOrder q st) = timers st @ [TrackResultTimer (findOrder q (orders st)) q]"
    by (rule timers_trackOrder)
  show "orderStatusText (runTimer (TrackResultTimer (findOrder q (orders st)) q) st') =
       (case findOrder q (orders st) of Some ord \<Rightarrow> OrderDetails ord | None \<Rightarrow> OrderNotFound q)"
    by (rule runTimer_shows)
  show "findOrder q os = Some ord \<longleftrightarrow>
      (\<exists>i<length os. os ! i = ord \<and> orderId ord = q \<and> (\<forall>j<i. orderId (os ! j) \<noteq> q))"
    by (rule findOrder_Some_iff)
  show "findOrder q os = None \<longleftrightarrow> q \<notin> orderId ` set os"
    by (rule findOrder_None)
next
  assume "i < length (orders st) \<and> orderId (orders st ! i) = q
        \<and> (\<forall>j<i. orderId (orders st ! j) \<noteq> q)"
  then show "timers (trackOrder q st) = timers st @ [TrackResultTimer (Some (orders st ! i)) q]"
    by (intro trackOrder_first_match) simp_all
next
  assume "q \<notin> orderId ` set (orders st)"
  then show "timers (trackOrder q st) = timers st @ [TrackResultTimer None q]"
    by (rule trackOrder_no_match)
next
  assume a: "cart s \<noteq> [] \<and> cart s1 \<noteq> []
        \<and> orders s1 = orders (handleBuyAllItemsClick now1 d1 s)
        \<and> slice (- 6) (numberToString now2) = slice (- 6) (numberToString now1)"
  then have ne: "cart s \<noteq> []" and ne1: "cart s1 \<noteq> []"
    and os1: "orders s1 = orders (handleBuyAllItemsClick now1 d1 s)"
    and same: "slice (- 6) (numberToString now2) = slice (- 6) (numberToString now1)"
    by simp_all
  let ?oid = "slice (- 6) (numberToString now1)"
  let ?s2 = "handleBuyAllItemsClick now2 d2 s1"
  let ?os2 = "orders ?s2"
  let ?n = "length (orders s)"
  note c = colliding_checkouts [OF ne ne1 os1 same, of d2]
  have same_result: "timers (trackOrder ?oid ?s2) =
      timers ?s2 @ [TrackResultTimer
                      (findOrder ?oid (orders (handleBuyAllItemsClick now1 d1 s))) ?oid]"
    by (simp only: timers_trackOrder c(8))
  from c(9) obtain k where k: "k \<le> ?n" "findOrder ?oid ?os2 = Some (?os2 ! k)"
    by blast
  from k(2) obtain k' where k': "k' < length ?os2" "?os2 ! k' = ?os2 ! k"
      "orderId (?os2 ! k) = ?oid" "\<forall>j<k'. orderId (?os2 ! j) \<noteq> ?oid"
    unfolding findOrder_Some_iff by blast
  have "\<not> ?n < k'"
    using k'(4) c(2) by blast
  then have "k' \<le> ?n" by simp
  moreover have "timers (trackOrder ?oid ?s2) =
      timers ?s2 @ [TrackResultTimer (Some (?os2 ! k')) ?oid]"
    by (simp only: timers_trackOrder k(2) k'(2))
  moreover have "orderId (?os2 ! k') = ?oid"
    by (simp only: k'(2,3))
  ultimately have earliest: "\<exists>i\<le>?n. timers (trackOrder ?oid ?s2) =
                         timers ?s2 @ [TrackResultTimer (Some (?os2 ! i)) ?oid]
                       \<and> orderId (?os2 ! i) = ?oid \<and> (\<forall>j<i. orderId (?os2 ! j) \<noteq> ?oid)"
    using k'(4) by blast
  have fresh: "?oid \<notin> orderId ` set (orders s) \<longrightarrow>
                 timers (trackOrder ?oid ?s2) =
                   timers ?s2 @ [TrackResultTimer (Some (?os2 ! ?n)) ?oid]"
  proof
    assume "?oid \<notin> orderId ` set (orders s)"
    with c(10) have "findOrder ?oid ?os2 = Some (?os2 ! ?n)"
      by blast
    then show "timers (trackOrder ?oid ?s2) =
                   timers ?s2 @ [TrackResultTimer (Some (?os2 ! ?n)) ?oid]"
      by (simp only: timers_trackOrder)
  qed
  show "let oid = slice (- 6) (numberToString now1);
             s2 = handleBuyAllItemsClick now2 d2 s1;
             os2 = orders s2;
             n = length (orders s)
         in length os2 = n + 2
            \<and> orderId (os2 ! n) = oid \<and> items (os2 ! n) = cart s \<and> date (os2 ! n) = d1
            \<and> orderId (os2 ! (n + 1)) = oid \<and> items (os2 ! (n + 1)) = cart s1
            \<and> date (os2 ! (n + 1)) = d2
            \<and> timers (trackOrder oid s2) =
                timers s2 @ [TrackResultTimer
                               (findOrder oid (orders (handleBuyAllItemsClick now1 d1 s))) oid]
            \<and> (\<exists>i\<le>n. timers (trackOrder oid s2) =
                         timers s2 @ [TrackResultTimer (Some (os2 ! i)) oid]
                       \<and> orderId (os2 ! i) = oid \<and> (\<forall>j<i. orderId (os2 ! j) \<noteq> oid))
            \<and> (oid \<notin> orderId ` set (orders s) \<longrightarrow>
                 timers (trackOrder oid s2) =
                   timers s2 @ [TrackResultTimer (Some (os2 ! n)) oid])
            \<and> (\<forall>q'. \<not> (orderId (os2 ! (n + 1)) = q'
                        \<and> (\<forall>j<n + 1. orderId (os2 ! j) \<noteq> q')))"
    unfolding Let_def
    using c(1-7) same_result earliest fresh c(11) by (intro conjI)
qed


text \<open>
  The lookup need not resolve to the older of the two orders: of three checkouts with the
  same id, the second and the third generate the same id, and the lookup shows the first.
\<close>

theorem lookup_returns_earliest_counterexample:
  "orders (run [AddToCartClick ''Hoodie'' 1200, BuyAllItemsClick 1700000123456 ''2/11/2026, 10:15:00 am'',
               AddToCartClick ''Cap'' 300, BuyAllItemsClick 1700001123456 ''2/11/2026, 10:31:40 am'',
               AddToCartClick ''Socks'' 150, BuyAllItemsClick 1700002123456 ''2/11/2026, 10:48:20 am'']
          (initialState (blankPage :: real state))) =
       [\<lparr>orderId = ''123456'', items = [\<lparr>name = ''Hoodie'', price = 1200, quantity = 1\<rparr>],
            orderTotal = 1200, date = ''2/11/2026, 10:15:00 am''\<rparr>,
        \<lparr>orderId = ''123456'', items = [\<lparr>name = ''Cap'', price = 300, quantity = 1\<rparr>],
            orderTotal = 300, date = ''2/11/2026, 10:31:40 am''\<rparr>,
        \<lparr>orderId = ''123456'', items = [\<lparr>name = ''Socks'', price = 150, quantity = 1\<rparr>],
            orderTotal = 150, date = ''2/11/2026, 10:48:20 am''\<rparr>]
   \<and> timers (trackOrder ''123456'' (run [AddToCartClick ''Hoodie'' 1200, BuyAllItemsClick 1700000123456 ''2/11/2026, 10:15:00 am'',
               AddToCartClick ''Cap'' 300, BuyAllItemsClick 1700001123456 ''2/11/2026, 10:31:40 am'',
               AddToCartClick ''Socks'' 150, BuyAllItemsClick 1700002123456 ''2/11/2026, 10:48:20 am'']
          (initialState (blankPage :: real state)))) =
       timers (run [AddToCartClick ''Hoodie'' 1200, BuyAllItemsClick 1700000123456 ''2/11/2026, 10:15:00 am'',
               AddToCartClick ''Cap'' 300, BuyAllItemsClick 1700001123456 ''2/11/2026, 10:31:40 am'',
               AddToCartClick ''Socks'' 150, BuyAllItemsClick 1700002123456 ''2/11/2026, 10:48:20 am'']
          (initialState (blankPage :: real state))) @
         [TrackResultTimer (Some
           \<lparr>orderId = ''123456'', items = [\<lparr>name = ''Hoodie'', price = 1200, quantity = 1\<rparr>],
            orderTotal = 1200, date = ''2/11/2026, 10:15:00 am''\<rparr>) ''123456'']
   \<and> findOrder ''123456'' (orders (run [AddToCartClick ''Hoodie'' 1200, BuyAllItemsClick 1700000123456 ''2/11/2026, 10:15:00 am'',
               AddToCartClick ''Cap'' 300, BuyAllItemsClick 1700001123456 ''2/11/2026, 10:31:40 am'',
               AddToCartClick ''Socks'' 150, BuyAllItemsClick 1700002123456 ''2/11/2026, 10:48:20 am'']
          (initialState (blankPage :: real state)))) \<noteq> Some
           \<lparr>orderId = ''123456'', items = [\<lparr>name = ''Cap'', price = 300, quantity = 1\<rparr>],
            orderTotal = 300, date = ''2/11/2026, 10:31:40 am''\<rparr>
   \<and> orderStatusText (run [AddToCartClick ''Hoodie'' 1200, BuyAllItemsClick 1700000123456 ''2/11/2026, 10:15:00 am'',
               AddToCartClick ''Cap'' 300, BuyAllItemsClick 1700001123456 ''2/11/2026, 10:31:40 am'',
               AddToCartClick ''Socks'' 150, BuyAllItemsClick 1700002123456 ''2/11/2026, 10:48:20 am'',
               UserTypesOrderNumber ''123456'', TrackOrderBtnClick, TimerFires 3]
          (initialState (blankPage :: real state))) = OrderDetails
           \<lparr>orderId = ''123456'', items = [\<lparr>name = ''Hoodie'', price = 1200, quantity = 1\<rparr>],
            orderTotal = 1200, date = ''2/11/2026, 10:15:00 am''\<rparr>"
proof -
  have os: "orders (run [AddToCartClick ''Hoodie'' 1200, BuyAllItemsClick 1700000123456 ''2/11/2026, 10:15:00 am'',
               AddToCartClick ''Cap'' 300, BuyAllItemsClick 1700001123456 ''2/11/2026, 10:31:40 am'',
               AddToCartClick ''Socks'' 150, BuyAllItemsClick 1700002123456 ''2/11/2026, 10:48:20 am'']
          (initialState (blankPage :: real state))) =
       [\<lparr>orderId = ''123456'', items = [\<lparr>name = ''Hoodie'', price = 1200, quantity = 1\<rparr>],
            orderTotal = 1200, date = ''2/11/2026, 10:15:00 am''\<rparr>,
        \<lparr>orderId = ''123456'', items = [\<lparr>name = ''Cap'', price = 300, quantity = 1\<rparr>],
            orderTotal = 300, date = ''2/11/2026, 10:31:40 am''\<rparr>,
        \<lparr>orderId = ''123456'', items = [\<lparr>name = ''Socks'', price = 150, quantity = 1\<rparr>],
            orderTotal = 150, date = ''2/11/2026, 10:48:20 am''\<rparr>]"
    by (simp add: eval_defs)
  have f: "findOrder ''123456'' (orders (run [AddToCartClick ''Hoodie'' 1200, BuyAllItemsClick 1700000123456 ''2/11/2026, 10:15:00 am'',
               AddToCartClick ''Cap'' 300, BuyAllItemsClick 1700001123456 ''2/11/2026, 10:31:40 am'',
               AddToCartClick ''Socks'' 150, BuyAllItemsClick 1700002123456 ''2/11/2026, 10:48:20 am'']
          (initialState (blankPage :: real state)))) = Some
           \<lparr>orderId = ''123456'', items = [\<lparr>name = ''Hoodie'', price = 1200, quantity = 1\<rparr>],
            orderTotal = 1200, date = ''2/11/2026, 10:15:00 am''\<rparr>"
    by (simp add: os findOrder_def)
  have t: "timers (trackOrder ''123456'' (run [AddToCartClick ''Hoodie'' 1200, BuyAllItemsClick 1700000123456 ''2/11/2026, 10:15:00 am'',
               AddToCartClick ''Cap'' 300, BuyAllItemsClick 1700001123456 ''2/11/2026, 10:31:40 am'',
               AddToCartClick ''Socks'' 150, BuyAllItemsClick 1700002123456 ''2/11/2026, 10:48:20 am'']
          (initialState (blankPage :: real state)))) =
       timers (run [AddToCartClick ''Hoodie'' 1200, BuyAllItemsClick 1700000123456 ''2/11/2026, 10:15:00 am'',
               AddToCartClick ''Cap'' 300, BuyAllItemsClick 1700001123456 ''2/11/2026, 10:31:40 am'',
               AddToCartClick ''Socks'' 150, BuyAllItemsClick 1700002123456 ''2/11/2026, 10:48:20 am'']
          (initialState (blankPage :: real state))) @
         [TrackResultTimer (Some
           \<lparr>orderId = ''123456'', items = [\<lparr>name = ''Hoodie'', price = 1200, quantity = 1\<rparr>],
            orderTotal = 1200, date = ''2/11/2026, 10:15:00 am''\<rparr>) ''123456'']"
    by (simp only: timers_trackOrder f)
  have ne: "findOrder ''123456'' (orders (run [AddToCartClick ''Hoodie'' 1200, BuyAllItemsClick 1700000123456 ''2/11/2026, 10:15:00 am'',
               AddToCartClick ''Cap'' 300, BuyAllItemsClick 1700001123456 ''2/11/2026, 10:31:40 am'',
               AddToCartClick ''Socks'' 150, BuyAllItemsClick 1700002123456 ''2/11/2026, 10:48:20 am'']
          (initialState (blankPage :: real state)))) \<noteq> Some
           \<lparr>orderId = ''123456'', items = [\<lparr>name = ''Cap'', price = 300, quantity = 1\<rparr>],
            orderTotal = 300, date = ''2/11/2026, 10:31:40 am''\<rparr>"
    by (simp add: f)
  have shown: "orderStatusText (run [AddToCartClick ''Hoodie'' 1200, BuyAllItemsClick 1700000123456 ''2/11/2026, 10:15:00 am'',
               AddToCartClick ''Cap'' 300, BuyAllItemsClick 1700001123456 ''2/11/2026, 10:31:40 am'',
               AddToCartClick ''Socks'' 150, BuyAllItemsClick 1700002123456 ''2/11/2026, 10:48:20 am'',
               UserTypesOrderNumber ''123456'', TrackOrderBtnClick, TimerFires 3]
          (initialState (blankPage :: real state))) = OrderDetails
           \<lparr>orderId = ''123456'', items = [\<lparr>name = ''Hoodie'', price = 1200, quantity = 1\<rparr>],
            orderTotal = 1200, date = ''2/11/2026, 10:15:00 am''\<rparr>"
    by (simp add: eval_defs track_defs)
  from os t ne shown show ?thesis
    by blast
qed

theorem lookup_returns_earliest_witness:
  "cart (addItemToCart ''Hoodie'' 1200 (initialState (blankPage :: real state))) \<noteq> []
   \<and> cart (addItemToCart ''Cap'' 300
          (handleBuyAllItemsClick 1700000123456 ''2/11/2026, 10:15:00 am''
             (addItemToCart ''Hoodie'' 1200 (initialState (blankPage :: real state))))) \<noteq> []
   \<and> slice (- 6) (numberToString 1700001123456) = slice (- 6) (numberToString 1700000123456)
   \<and> orders (handleBuyAllItemsClick 1700001123456 ''2/11/2026, 10:31:40 am''
          (addItemToCart ''Cap'' 300
             (handleBuyAllItemsClick 1700000123456 ''2/11/2026, 10:15:00 am''
                (addItemToCart ''Hoodie'' 1200 (initialState (blankPage :: real state)))))) =
       [\<lparr>orderId = ''123456'', items = [\<lparr>name = ''Hoodie'', price = 1200, quantity = 1\<rparr>],
            orderTotal = 1200, date = ''2/11/2026, 10:15:00 am''\<rparr>,
        \<lparr>orderId = ''123456'', items = [\<lparr>name = ''Cap'', price = 300, quantity = 1\<rparr>],
            orderTotal = 300, date = ''2/11/2026, 10:31:40 am''\<rparr>]
   \<and> timers (trackOrder ''123456'' (handleBuyAllItemsClick 1700001123456 ''2/11/2026, 10:31:40 am''
          (addItemToCart ''Cap'' 300
             (handleBuyAllItemsClick 1700000123456 ''2/11/2026, 10:15:00 am''
                (addItemToCart ''Hoodie'' 1200 (initialState (blankPage :: real state))))))) =
       timers (handleBuyAllItemsClick 1700001123456 ''2/11/2026, 10:31:40 am''
          (addItemToCart ''Cap'' 300
             (handleBuyAllItemsClick 1700000123456 ''2/11/2026, 10:15:00 am''
                (addItemToCart ''Hoodie'' 1200 (initialState (blankPage :: real state)))))) @
         [TrackResultTimer (Some
           \<lparr>orderId = ''123456'', items = [\<lparr>name = ''Hoodie'', price = 1200, quantity = 1\<rparr>],
            orderTotal = 1200, date = ''2/11/2026, 10:15:00 am''\<rparr>) ''123456'']
   \<and> ''000000'' \<notin> orderId ` set (orders (handleBuyAllItemsClick 1700001123456 ''2/11/2026, 10:31:40 am''
          (addItemToCart ''Cap'' 300
             (handleBuyAllItemsClick 1700000123456 ''2/11/2026, 10:15:00 am''
                (addItemToCart ''Hoodie'' 1200 (initialState (blankPage :: real state)))))))
   \<and> timers (trackOrder ''000000'' (handleBuyAllItemsClick 1700001123456 ''2/11/2026, 10:31:40 am''
          (addItemToCart ''Cap'' 300
             (handleBuyAllItemsClick 1700000123456 ''2/11/2026, 10:15:00 am''
                (addItemToCart ''Hoodie'' 1200 (initialState (blankPage :: real state))))))) =
       timers (handleBuyAllItemsClick 1700001123456 ''2/11/2026, 10:31:40 am''
          (addItemToCart ''Cap'' 300
             (handleBuyAllItemsClick 1700000123456 ''2/11/2026, 10:15:00 am''
                (addItemToCart ''Hoodie'' 1200 (initialState (blankPage :: real state)))))) @ [TrackResultTimer None ''000000'']
   \<and> slice (- 6) (numberToString 1700000123456) \<notin> orderId ` set (orders (addItemToCart ''Hoodie'' 1200 (initialState (blankPage :: real state))))
   \<and> timers (trackOrder (slice (- 6) (numberToString 1700000123456)) (handleBuyAllItemsClick 1700001123456 ''2/11/2026, 10:31:40 am''
          (addItemToCart ''Cap'' 300
             (handleBuyAllItemsClick 1700000123456 ''2/11/2026, 10:15:00 am''
                (addItemToCart ''Hoodie'' 1200 (initialState (blankPage :: real state))))))) =
       timers (handleBuyAllItemsClick 1700001123456 ''2/11/2026, 10:31:40 am''
          (addItemToCart ''Cap'' 300
             (handleBuyAllItemsClick 1700000123456 ''2/11/2026, 10:15:00 am''
                (addItemToCart ''Hoodie'' 1200 (initialState (blankPage :: real state)))))) @
         [TrackResultTimer (Some (orders (handleBuyAllItemsClick 1700001123456 ''2/11/2026, 10:31:40 am''
          (addItemToCart ''Cap'' 300
             (handleBuyAllItemsClick 1700000123456 ''2/11/2026, 10:15:00 am''
                (addItemToCart ''Hoodie'' 1200 (initialState (blankPage :: real state)))))) ! length (orders (addItemToCart ''Hoodie'' 1200 (initialState (blankPage :: real state))))))
            (slice (- 6) (numberToString 1700000123456))]
   \<and> findOrder ''000000'' (orders (handleBuyAllItemsClick 1700001123456 ''2/11/2026, 10:31:40 am''
          (addItemToCart ''Cap'' 300
             (handleBuyAllItemsClick 1700000123456 ''2/11/2026, 10:15:00 am''
                (addItemToCart ''Hoodie'' 1200 (initialState (blankPage :: real state))))))) = None"
proof -
  let ?d1 = "''2/11/2026, 10:15:00 am''" and ?d2 = "''2/11/2026, 10:31:40 am''"
  let ?s = "addItemToCart ''Hoodie'' 1200 (initialState (blankPage :: real state))"
  let ?s1 = "addItemToCart ''Cap'' 300 (handleBuyAllItemsClick 1700000123456 ?d1 ?s)"
  let ?s2 = "handleBuyAllItemsClick 1700001123456 ?d2 ?s1"
  let ?old = "\<lparr>orderId = ''123456'', items = [\<lparr>name = ''Hoodie'', price = 1200, quantity = 1\<rparr>],
            orderTotal = 1200, date = ''2/11/2026, 10:15:00 am''\<rparr>"
  let ?new = "\<lparr>orderId = ''123456'', items = [\<lparr>name = ''Cap'', price = 300, quantity = 1\<rparr>],
            orderTotal = 300, date = ''2/11/2026, 10:31:40 am''\<rparr>"
  have sl: "slice (- 6) (numberToString 1700000123456) = ''123456''"
    "slice (- 6) (numberToString 1700001123456) = ''123456''"
    by (simp_all add: eval_defs)
  have c: "cart ?s = [\<lparr>name = ''Hoodie'', price = 1200, quantity = 1\<rparr>]" and o: "orders ?s = []"
    by (simp_all add: eval_defs)
  then have ne: "cart ?s \<noteq> []"
    by simp
  have o1: "orders (handleBuyAllItemsClick 1700000123456 ?d1 ?s) = [?old]"
    by (simp add: orders_checkout ne c o sl sumOfPriceTimesQuantity_def numberOfCount_of_nat)
  have c1: "cart ?s1 = [\<lparr>name = ''Cap'', price = 300, quantity = 1\<rparr>]"
    by (simp add: cart_addItemToCart cart_checkout)
  then have ne1: "cart ?s1 \<noteq> []"
    by simp
  have os1: "orders ?s1 = orders (handleBuyAllItemsClick 1700000123456 ?d1 ?s)"
    by (simp add: addItemToCart_def Let_def)
  have o2: "orders ?s2 = [?old, ?new]"
    by (simp add: orders_checkout ne1 c1 os1 o1 sl sumOfPriceTimesQuantity_def
          numberOfCount_of_nat)
  have same: "slice (- 6) (numberToString 1700001123456) = slice (- 6) (numberToString 1700000123456)"
    by (simp only: sl)
  note absent_case = lookup_returns_earliest [of "''000000''" ?s2 ?s2 0 "orders ?s2" ?old ?s ?s1
      1700000123456 ?d1 1700001123456 ?d2]
  note first_case = lookup_returns_earliest [of "''123456''" ?s2 ?s2 0 "orders ?s2" ?old ?s ?s1
      1700000123456 ?d1 1700001123456 ?d2]
  have absent: "''000000'' \<notin> orderId ` set (orders ?s2)"
    by (simp add: o2)
  with absent_case have r0: "timers (trackOrder ''000000'' ?s2) =
       timers ?s2 @ [TrackResultTimer None ''000000'']"
    and r0': "findOrder ''000000'' (orders ?s2) = None"
    by blast+
  have first: "0 < length (orders ?s2) \<and> orderId (orders ?s2 ! 0) = ''123456''
        \<and> (\<forall>j<0. orderId (orders ?s2 ! j) \<noteq> ''123456'')"
    by (simp add: o2)
  with first_case have "timers (trackOrder ''123456'' ?s2) =
      timers ?s2 @ [TrackResultTimer (Some (orders ?s2 ! 0)) ''123456'']"
    by blast
  then have r1: "timers (trackOrder ''123456'' ?s2) =
      timers ?s2 @ [TrackResultTimer (Some ?old) ''123456'']"
    by (simp add: o2)
  have fresh: "slice (- 6) (numberToString 1700000123456) \<notin> orderId ` set (orders ?s)"
    by (simp add: o)
  from first_case ne ne1 os1 same
  have "slice (- 6) (numberToString 1700000123456) \<notin> orderId ` set (orders ?s) \<longrightarrow>
        timers (trackOrder (slice (- 6) (numberToString 1700000123456)) ?s2) =
          timers ?s2 @ [TrackResultTimer (Some (orders ?s2 ! length (orders ?s)))
                          (slice (- 6) (numberToString 1700000123456))]"
    unfolding Let_def by blast
  with fresh
  have r2': "timers (trackOrder (slice (- 6) (numberToString 1700000123456)) ?s2) =
          timers ?s2 @ [TrackResultTimer (Some (orders ?s2 ! length (orders ?s)))
                          (slice (- 6) (numberToString 1700000123456))]"
    by blast
  then have r2: "timers (trackOrder ''123456'' ?s2) =
      timers ?s2 @ [TrackResultTimer (Some ?old) ''123456'']"
    by (simp add: sl o o2)
  from ne ne1 same o2 r1 absent r0 r0' fresh r2' show ?thesis
    by blast
qed

subsection \<open>The tracker button\<close>

lemma trim_Nil: "trim [] = []"
  by (simp add: trim_def)

text \<open>
  C8. Submitting the order lookup with an id that is empty (after trimming) shows the inline
  error message and marks the status display as error, and does nothing else: no timer is
  scheduled, cart and order store are unchanged, and the outcome does not depend on the
  order store, which is not searched.
\<close>

theorem empty_lookup_shows_error:
  "(trim (orderNumberInput s) = [] \<longrightarrow>
      handleTrackOrderBtnClick s = s\<lparr>orderStatusText := PleaseEnterValid, orderStatusError := True\<rparr>
      \<and> orderStatusText (handleTrackOrderBtnClick s) = PleaseEnterValid
      \<and> orderStatusError (handleTrackOrderBtnClick s)
      \<and> timers (handleTrackOrderBtnClick s) = timers s
      \<and> cart (handleTrackOrderBtnClick s) = cart s
      \<and> orders (handleTrackOrderBtnClick s) = orders s
      \<and> handleTrackOrderBtnClick (s\<lparr>orders := os\<rparr>) = (handleTrackOrderBtnClick s)\<lparr>orders := os\<rparr>)
   \<and> trim [] = []"
  by (simp add: handleTrackOrderBtnClick_def Let_def trim_Nil)

theorem empty_lookup_shows_error_witness:
  "trim (orderNumberInput (step (UserTypesOrderNumber ''  '') (initialState (blankPage :: real state)))) = []
   \<and> orderStatusText (handleTrackOrderBtnClick
        (step (UserTypesOrderNumber ''  '') (initialState (blankPage :: real state)))) = PleaseEnterValid
   \<and> orderStatusError (handleTrackOrderBtnClick
        (step (UserTypesOrderNumber ''  '') (initialState (blankPage :: real state))))
   \<and> timers (handleTrackOrderBtnClick
        (step (UserTypesOrderNumber ''  '') (initialState (blankPage :: real state)))) = []
   \<and> cart (handleTrackOrderBtnClick
        (step (UserTypesOrderNumber ''  '') (initialState (blankPage :: real state)))) = []
   \<and> orders (handleTrackOrderBtnClick
        (step (UserTypesOrderNumber ''  '') (initialState (blankPage :: real state)))) = []"
proof -
  let ?s = "step (UserTypesOrderNumber ''  '') (initialState (blankPage :: real state))"
  have h: "trim (orderNumberInput ?s) = []"
    by (simp add: trim_def isWhiteSpace_def)
  have init: "timers ?s = []" "cart ?s = []" "orders ?s = []"
    by (simp_all add: eval_defs)
  from empty_lookup_shows_error [of ?s "[]"] h
  have "orderStatusText (handleTrackOrderBtnClick ?s) = PleaseEnterValid"
    and "orderStatusError (handleTrackOrderBtnClick ?s)"
    and "timers (handleTrackOrderBtnClick ?s) = timers ?s"
    and "cart (handleTrackOrderBtnClick ?s) = cart ?s"
    and "orders (handleTrackOrderBtnClick ?s) = orders ?s"
    by blast+
  with h init show ?thesis
    by simp
qed

end
